theory Spec2Isabelle
  imports Complex_Main
begin

section \<open>JavaScript values, arrays and strings\<close>

text \<open>
  The reducer is TypeScript running on JavaScript values. Numbers that the action log
  carries as integers (card orders, player and suit indices, ranks, token counts, turn
  numbers, milliseconds) are \<open>int\<close>. A value that may be \<open>undefined\<close> or \<open>null\<close>
  is an \<open>option\<close>. An array is a list; reading it out of range gives \<open>undefined\<close>,
  which is \<open>None\<close> here, and using \<open>undefined\<close> as an object raises a TypeError, which
  is a value of the type \<open>error\<close> below.
\<close>

type_synonym CardOrder = int

text \<open>
  The suit index of a play or a discard is checked with \<open>typeof ... !== "number"\<close>, so a
  suit index is either a number or a value that is not a number (\<open>None\<close>).
\<close>

type_synonym SuitIndex = "int option"

text \<open>\<open>xs[i]\<close> for a numeric index.\<close>

definition js_get :: "'a list \<Rightarrow> int \<Rightarrow> 'a option" where
  "js_get xs i = (if 0 \<le> i \<and> i < int (length xs) then Some (xs ! nat i) else None)"

text \<open>\<open>xs[k]\<close> for a key that may not be a number.\<close>

definition js_get_key :: "'a list \<Rightarrow> SuitIndex \<Rightarrow> 'a option" where
  "js_get_key xs k = (case k of None \<Rightarrow> None | Some i \<Rightarrow> js_get xs i)"

text \<open>\<open>xs.indexOf(x)\<close>: the first index holding \<open>x\<close>, or -1.\<close>

fun indexOf :: "'a list \<Rightarrow> 'a \<Rightarrow> int" where
  "indexOf [] x = - 1"
| "indexOf (y # ys) x =
     (if y = x then 0 else (let r = indexOf ys x in if r = - 1 then - 1 else r + 1))"

text \<open>
  \<open>xs.splice(start, 1)\<close>: a negative start counts from the end, a start beyond the end is
  the end. The result is the array that remains and the array of removed elements
  (one element, or none).
\<close>

definition splice1 :: "'a list \<Rightarrow> int \<Rightarrow> 'a list \<times> 'a list" where
  "splice1 xs start =
     (let len = int (length xs);
          actualStart = (if start < 0 then max (len + start) 0 else min start len);
          n = nat actualStart
      in (take n xs @ drop (Suc n) xs, take 1 (drop n xs)))"

text \<open>
  Template-literal rendering of an integer: the decimal digits, least significant first,
  are put in front of what has been rendered.
\<close>

definition digit :: "nat \<Rightarrow> char" where
  "digit n = ''0123456789'' ! (n mod 10)"

function render_nat :: "nat \<Rightarrow> string \<Rightarrow> string" where
  "render_nat n acc =
     (let acc' = digit n # acc in if n div 10 = 0 then acc' else render_nat (n div 10) acc')"
  by pat_completeness auto
termination
  by (relation "measure fst") auto

definition render_int :: "int \<Rightarrow> string" where
  "render_int i =
     (if 0 \<le> i then render_nat (nat i) [] else CHR ''-'' # render_nat (nat (- i)) [])"

section \<open>Errors\<close>

text \<open>
  The reducer throws in three places of its own; reading a property of \<open>undefined\<close>
  raises a TypeError; and every function it imports may throw, which is
  \<open>Collaborator\<close> with the message.
\<close>

datatype error =
    BeforeInitialDeal
  | BadSuitIndexDiscarded SuitIndex
  | BadSuitIndexPlayed SuitIndex
  | TypeError
  | Collaborator string

text \<open>
  The recipe mutates a draft. When it throws, the draft holds the mutations made so far:
  a run of the recipe is \<open>Inl (e, draft)\<close> when it threw \<open>e\<close>, and \<open>Inr draft\<close> when it
  returned.
\<close>

type_synonym 's run = "(error \<times> 's) + 's"

text \<open>A call of an imported function, with the draft as it is at the call.\<close>

definition call :: "string + 'a \<Rightarrow> 's \<Rightarrow> ('a \<Rightarrow> (error \<times> 's) + 'b) \<Rightarrow> (error \<times> 's) + 'b" where
  "call r s k = (case r of Inl msg \<Rightarrow> Inl (Collaborator msg, s) | Inr x \<Rightarrow> k x)"

text \<open>Sequencing of two parts of the recipe.\<close>

definition and_then :: "'s run \<Rightarrow> ('s \<Rightarrow> 's run) \<Rightarrow> 's run" where
  "and_then r k = (case r of Inl x \<Rightarrow> Inl x | Inr s \<Rightarrow> k s)"

section \<open>Data model\<close>

subsection \<open>Variant and game metadata\<close>

text \<open>
  The declarations of \<open>Variant\<close>, \<open>GameMetadata\<close>, \<open>GameState\<close>, \<open>TurnState\<close> and the
  actions are outside the sources at hand. Each record below has the fields that the
  reducer and the narration functions read or write, under the names they use there.
\<close>

record Variant =
  throwItInAHole :: bool
  sudoku :: bool
  ranks :: "int list"

record Options =
  variantName :: string
  optCardCycle :: bool  \<comment> \<open>\<open>metadata.options.cardCycle\<close>\<close>
  timed :: bool

record GameMetadata =
  options :: Options
  playerNames :: "string list"

subsection \<open>Actions\<close>

datatype ClueType = Color | Rank

datatype EndCondition =
    InProgress | Normal | Strikeout | Timeout | TerminatedByPlayer | TerminatedByVote
  | SpeedrunFail | IdleTimeout | CharacterSoftlock | AllOrNothingFail | AllOrNothingSoftlock

text \<open>
  The discriminated union \<open>GameAction\<close>. The constructor arguments are, in order:
  \<^item> \<open>Clue\<close>: \<open>clue.type\<close>, \<open>clue.value\<close>, \<open>giver\<close>, \<open>list\<close>, \<open>target\<close>, \<open>turn\<close>,
    \<open>ignoreNegative\<close> (an absent flag is false);
  \<^item> \<open>Discard\<close>: \<open>playerIndex\<close>, \<open>order\<close>, \<open>suitIndex\<close>, \<open>rank\<close>, \<open>failed\<close>;
  \<^item> \<open>Draw\<close>: \<open>playerIndex\<close>, \<open>order\<close>, \<open>suitIndex\<close>, \<open>rank\<close>;
  \<^item> \<open>GameOver\<close>: \<open>endCondition\<close>, \<open>playerIndex\<close>, \<open>votes\<close>;
  \<^item> \<open>Play\<close>: \<open>playerIndex\<close>, \<open>order\<close>, \<open>suitIndex\<close>, \<open>rank\<close>;
  \<^item> \<open>PlayerTimes\<close>: \<open>playerTimes\<close>, \<open>duration\<close>;
  \<^item> \<open>Strike\<close>: \<open>num\<close>, \<open>turn\<close>, \<open>order\<close>.
  The reducer reads no field of the seven other actions; their content is \<open>'x\<close>.
\<close>

datatype 'x GameAction =
    Clue ClueType int int "CardOrder list" int int bool
  | Discard (playerIndex: int) (order: CardOrder) (suitIndex: SuitIndex) (rank: int) (failed: bool)
  | Draw (playerIndex: int) (order: CardOrder) (suitIndex: SuitIndex) (rank: int)
  | GameOver EndCondition int "int list option"
  | Play (playerIndex: int) (order: CardOrder) (suitIndex: SuitIndex) (rank: int)
  | PlayerTimes "int list" int
  | Strike int int CardOrder
  | SetEffMod 'x
  | EditNote 'x
  | NoteList 'x
  | NoteListPlayer 'x
  | ReceiveNote 'x
  | Turn 'x
  | CardIdentity 'x

subsection \<open>State\<close>

text \<open>
  The interface \<open>StatsState\<close>. \<open>PaceRisk\<close> is a numeric enum declared elsewhere; its
  members are numbers.
\<close>

type_synonym PaceRisk = int
type_synonym StackDirection = int
type_synonym CardStatus = int

record StatsState =
  maxScore :: int
  maxScorePerStack :: "int list"
  pace :: "int option"
  paceRisk :: PaceRisk
  finalRoundEffectivelyStarted :: bool
  cardsGotten :: int
  potentialCluesLost :: int
  cluesStillUsable :: "int option"
  cluesStillUsableNotRounded :: "real option"
  cardsGottenByNotes :: "int option"
  doubleDiscard :: "CardOrder option"
  numSubsequentBlindPlays :: int
  numSubsequentMisplays :: int
  numAttemptedCardsPlayed_stats :: int  \<comment> \<open>\<open>StatsState.numAttemptedCardsPlayed\<close>\<close>

record TurnState =
  segment :: "int option"
  turnNum :: int
  currentPlayerIndex :: "int option"

text \<open>The object pushed onto \<open>state.clues\<close>.\<close>

record StateClue =
  type_clue :: ClueType
  value_clue :: int
  giver_clue :: int
  target_clue :: int
  segment_clue :: int
  list_clue :: "CardOrder list"
  negativeList_clue :: "CardOrder option list"

text \<open>The object pushed onto \<open>state.strikes\<close>; the segment may be \<open>null\<close>.\<close>

record StateStrike =
  order_strike :: CardOrder
  segment_strike :: "int option"

text \<open>The object pushed onto \<open>state.log\<close>.\<close>

record LogEntry =
  turn_log :: int
  text_log :: string

text \<open>
  \<open>GameState\<close>, with \<open>'c\<close> for \<open>CardState\<close>. A hand is an array of card orders;
  \<open>cardCycle\<close> can push \<open>undefined\<close> onto it, so its elements are options.
  \<open>playStackDirections\<close>, \<open>playStackStarts\<close> and \<open>cardStatus\<close> are written at a key
  taken from the action, so they are maps from keys to values (in a development build
  the draft library refuses a write at a key that is not a number; that is not modelled).
\<close>

type_synonym Hand = "CardOrder option list"

record 'c GameState =
  deck :: "'c list"
  hands :: "Hand list"
  playStacks :: "CardOrder list list"
  discardStacks :: "CardOrder list list"
  playStackDirections :: "SuitIndex \<rightharpoonup> StackDirection"
  playStackStarts :: "SuitIndex \<rightharpoonup> int option"
  cardStatus :: "SuitIndex \<rightharpoonup> (int \<rightharpoonup> CardStatus)"
  clueTokens :: int
  score :: int
  strikes :: "StateStrike list"
  hole :: "CardOrder list"
  turn :: TurnState
  stats :: StatsState
  log :: "LogEntry list"
  clues :: "StateClue list"
  cardsRemainingInTheDeck :: int
  numAttemptedCardsPlayed :: int

section \<open>Imported functions\<close>

text \<open>
  The reducer imports the variant table, the rule modules (\<open>clueTokensRules\<close>,
  \<open>cardRules\<close>, \<open>deckRules\<close>, \<open>handRules\<close>, \<open>variantRules\<close>, \<open>playStacksRules\<close>) and
  the five sub-reducers. None of them is in the sources at hand: they are the fields of
  one record, and every theorem below holds for all of them. A result \<open>Inl msg\<close> is a
  throw. They take the draft and the base state as read-only values and return their
  result; the reducer assigns it. An argument that the reducer reads with a non-null
  assertion is an option.
  \<open>gain\<close> takes its fourth argument as an option: the discard branch passes three
  arguments. \<open>'n\<close> is \<open>CardNote\<close>.
\<close>

record ('c, 'x, 'n) Collaborators =
  getVariant :: "string \<Rightarrow> string + Variant"
  getAdjusted :: "int \<Rightarrow> Variant \<Rightarrow> string + int"
  gain :: "'x GameAction \<Rightarrow> int \<Rightarrow> Variant \<Rightarrow> bool option \<Rightarrow> string + int"
  isClued :: "'c option \<Rightarrow> string + bool"
  isInitialDealFinished :: "int \<Rightarrow> GameMetadata \<Rightarrow> string + bool"
  chopIndex :: "Hand option \<Rightarrow> 'c list \<Rightarrow> string + int"
  hasReversedSuits :: "Variant \<Rightarrow> string + bool"
  direction ::
    "SuitIndex \<Rightarrow> CardOrder list option \<Rightarrow> 'c list \<Rightarrow> Variant \<Rightarrow> string + StackDirection"
  stackStartRank :: "CardOrder list option \<Rightarrow> 'c list \<Rightarrow> Variant \<Rightarrow> string + int option"
  status ::
    "SuitIndex \<Rightarrow> int \<Rightarrow> 'c list \<Rightarrow> CardOrder list list \<Rightarrow> (SuitIndex \<rightharpoonup> StackDirection)
      \<Rightarrow> (SuitIndex \<rightharpoonup> int option) \<Rightarrow> Variant \<Rightarrow> string + CardStatus"
  getCardName :: "SuitIndex \<Rightarrow> int \<Rightarrow> Variant \<Rightarrow> string + string"
  textRules_clue :: "'x GameAction \<Rightarrow> Hand option \<Rightarrow> bool \<Rightarrow> GameMetadata \<Rightarrow> string + string"
  textRules_gameOver ::
    "EndCondition \<Rightarrow> int \<Rightarrow> int \<Rightarrow> GameMetadata \<Rightarrow> int list option \<Rightarrow> string + string"
  cardsReducer ::
    "'c list \<Rightarrow> 'x GameAction \<Rightarrow> 'c GameState \<Rightarrow> GameMetadata \<Rightarrow> string + 'c list"
  turnReducer ::
    "TurnState \<Rightarrow> 'x GameAction \<Rightarrow> 'c GameState \<Rightarrow> GameMetadata \<Rightarrow> string + TurnState"
  statsReducer ::
    "StatsState \<Rightarrow> 'x GameAction \<Rightarrow> 'c GameState \<Rightarrow> 'c GameState \<Rightarrow> bool \<Rightarrow> bool
      \<Rightarrow> GameMetadata \<Rightarrow> 'n list option \<Rightarrow> string + StatsState"
  ddaReducer :: "'c list \<Rightarrow> CardOrder option \<Rightarrow> int option \<Rightarrow> string + 'c list"
  knownTrashReducer ::
    "'c list \<Rightarrow> CardOrder list list \<Rightarrow> (SuitIndex \<rightharpoonup> StackDirection)
      \<Rightarrow> (SuitIndex \<rightharpoonup> int option) \<Rightarrow> Variant \<Rightarrow> string + 'c list"

section \<open>Narration (rules/text.ts)\<close>

text \<open>
  \<open>textRules.discard\<close> and \<open>textRules.play\<close> are embedded from the source, with
  \<open>getVariant\<close> and \<open>getCardName\<close> imported. \<open>textRules.clue\<close> and
  \<open>textRules.gameOver\<close> are consumed through the record above. The reducer imports
  \<open>getPlayerName\<close> and \<open>millisecondsToClockString\<close> from modules that are not in the
  sources at hand; the functions of these names in rules/text.ts are taken for them.
\<close>

definition HYPO_PREFIX :: string where
  "HYPO_PREFIX = ''[Hypo] ''"

definition getPlayerName :: "int \<Rightarrow> GameMetadata \<Rightarrow> string" where
  "getPlayerName playerIndex' metadata =
     (case js_get (playerNames metadata) playerIndex' of None \<Rightarrow> ''[unknown]'' | Some n \<Rightarrow> n)"

definition location_text :: "int option \<Rightarrow> string" where
  "location_text slot = (case slot of None \<Rightarrow> ''the deck'' | Some n \<Rightarrow> ''slot #'' @ render_int n)"

definition textRules_play ::
  "('c, 'x, 'n) Collaborators \<Rightarrow> 'x GameAction \<Rightarrow> int option \<Rightarrow> bool \<Rightarrow> bool \<Rightarrow> bool \<Rightarrow> bool
    \<Rightarrow> GameMetadata \<Rightarrow> string + string" where
  "textRules_play C action slot touched playing shadowing hypothetical metadata =
     (case getVariant C (variantName (options metadata)) of
        Inl msg \<Rightarrow> Inl msg
      | Inr variant \<Rightarrow>
          let playerName = getPlayerName (playerIndex action) metadata in
          (case (if suitIndex action = Some (- 1) \<or> rank action = - 1
                    \<or> (throwItInAHole variant \<and> (playing \<or> shadowing))
                 then Inr ''a card''
                 else getCardName C (suitIndex action) (rank action) variant) of
             Inl msg \<Rightarrow> Inl msg
           | Inr cardName \<Rightarrow>
               let location = location_text slot;
                   suffix = (if \<not> touched then '' (blind)'' else []);
                   hypoPrefix = (if hypothetical then HYPO_PREFIX else [])
               in Inr (hypoPrefix @ playerName @ '' plays '' @ cardName @ '' from ''
                        @ location @ suffix)))"

definition textRules_discard ::
  "('c, 'x, 'n) Collaborators \<Rightarrow> 'x GameAction \<Rightarrow> int option \<Rightarrow> bool \<Rightarrow> bool \<Rightarrow> bool \<Rightarrow> bool
    \<Rightarrow> GameMetadata \<Rightarrow> string + string" where
  "textRules_discard C action slot touched playing shadowing hypothetical metadata =
     (case getVariant C (variantName (options metadata)) of
        Inl msg \<Rightarrow> Inl msg
      | Inr variant \<Rightarrow>
          let playerName = getPlayerName (playerIndex action) metadata;
              verb = (if failed action
                      then (if throwItInAHole variant \<and> (playing \<or> shadowing)
                            then ''plays'' else ''fails to play'')
                      else ''discards'')
          in
          (case (if suitIndex action = Some (- 1) \<or> rank action = - 1
                 then Inr ''a card''
                 else getCardName C (suitIndex action) (rank action) variant) of
             Inl msg \<Rightarrow> Inl msg
           | Inr cardName \<Rightarrow>
               let location = location_text slot;
                   suffix1 = (if failed action \<and> touched \<and> \<not> throwItInAHole variant
                              then '' (clued)'' else []);
                   suffix = (if failed action \<and> slot \<noteq> None \<and> \<not> touched
                             then '' (blind)'' else suffix1);
                   hypoPrefix = (if hypothetical then HYPO_PREFIX else [])
               in Inr (hypoPrefix @ playerName @ '' '' @ verb @ '' '' @ cardName @ '' from ''
                        @ location @ suffix)))"

definition pad2 :: "int \<Rightarrow> string" where
  "pad2 num = (if num < 10 then ''0'' @ render_int num else render_int num)"

text \<open>\<open>Math.ceil(time / 1000)\<close> on an integer number of milliseconds.\<close>

definition millisecondsToClockString :: "int \<Rightarrow> string" where
  "millisecondsToClockString milliseconds =
     (let time = \<bar>milliseconds\<bar>;
          seconds = (time + 999) div 1000
      in render_int (seconds div 60) @ '':'' @ pad2 (seconds mod 60))"

section \<open>The reducer\<close>

subsection \<open>Helpers of the reducer\<close>

text \<open>
  \<open>throwItInAHolePlayedOrMisplayed\<close> returns whether the card went to the hole, and the
  draft after its two mutations.
\<close>

definition throwItInAHolePlayedOrMisplayed ::
  "'c GameState \<Rightarrow> 'x GameAction \<Rightarrow> Variant \<Rightarrow> bool \<Rightarrow> bool \<Rightarrow> bool \<Rightarrow> bool \<times> 'c GameState" where
  "throwItInAHolePlayedOrMisplayed state action variant playing shadowing finished =
     (if \<not> throwItInAHole variant \<or> (\<not> playing \<and> \<not> shadowing) \<or> finished then (False, state)
      else if (is_Discard action \<and> failed action) \<or> is_Play action then
        (True, state\<lparr>hole := hole state @ [order action],
                     numAttemptedCardsPlayed := numAttemptedCardsPlayed state + 1\<rparr>)
      else (False, state))"

text \<open>
  \<open>cardCycle\<close> mutates the hand it is given. It throws only before the mutation, so its
  result is the error or the hand afterwards. The hand is \<open>state.hands[action.giver]\<close>,
  which may be \<open>undefined\<close>.
\<close>

definition cardCycle ::
  "('c, 'x, 'n) Collaborators \<Rightarrow> Hand option \<Rightarrow> 'c list \<Rightarrow> GameMetadata \<Rightarrow> error + Hand option" where
  "cardCycle C hand deck' metadata =
     (if \<not> optCardCycle (options metadata) then Inr hand
      else
        (case chopIndex C hand deck' of
           Inl msg \<Rightarrow> Inl (Collaborator msg)
         | Inr chopIndex' \<Rightarrow>
             (case hand of
                None \<Rightarrow> Inl TypeError
              | Some h \<Rightarrow>
                  if chopIndex' = int (length h) - 1 then Inr (Some h)
                  else
                    let (rest, removed) = splice1 h chopIndex';
                        removedCardOrder = (case removed of [] \<Rightarrow> None | x # _ \<Rightarrow> x)
                    in Inr (Some (rest @ [removedCardOrder])))))"

text \<open>\<open>action.list.includes(i)\<close> for an element \<open>i\<close> of a hand.\<close>

definition includes_js :: "CardOrder list \<Rightarrow> CardOrder option \<Rightarrow> bool" where
  "includes_js xs i = (case i of None \<Rightarrow> False | Some n \<Rightarrow> n \<in> set xs)"

text \<open>
  The first lines of the \<open>discard\<close> and \<open>play\<close> branches are the same: find the card in
  the hand of \<open>action.playerIndex\<close>, compute the slot and remove the card. The result is
  the slot and the draft.
\<close>

definition removeFromHand ::
  "'c GameState \<Rightarrow> int \<Rightarrow> CardOrder \<Rightarrow> (error \<times> 'c GameState) + (int option \<times> 'c GameState)" where
  "removeFromHand state playerIndex' order' =
     (case js_get (hands state) playerIndex' of
        None \<Rightarrow> Inl (TypeError, state)
      | Some hand \<Rightarrow>
          let handIndex = indexOf hand (Some order') in
          if handIndex \<noteq> - 1 then
            Inr (Some (int (length hand) - handIndex),
                 state\<lparr>hands := (hands state)[nat playerIndex' := fst (splice1 hand handIndex)]\<rparr>)
          else Inr (None, state))"

definition push_log :: "'c GameState \<Rightarrow> string \<Rightarrow> 'c GameState" where
  "push_log state text' =
     state\<lparr>log := log state @ [\<lparr>turn_log = turnNum (turn state) + 1, text_log = text'\<rparr>]\<rparr>"

subsection \<open>The branches of the switch\<close>

text \<open>
  The \<open>clue\<close> branch, in the order of the source: the debit of the clue tokens, the check of
  the turn segment, \<open>negativeList\<close>, the push onto \<open>state.clues\<close> (both cases of the inner
  switch push the same object), the narration, and the card cycling.
\<close>

definition clue_negativeList ::
  "'c GameState \<Rightarrow> CardOrder list \<Rightarrow> int \<Rightarrow> bool \<Rightarrow> error + Hand" where
  "clue_negativeList state list' target ignoreNegative =
     (if ignoreNegative then Inr []
      else (case js_get (hands state) target of
              None \<Rightarrow> Inl TypeError
            | Some h \<Rightarrow> Inr (filter (\<lambda>i. \<not> includes_js list' i) h)))"

definition clue_cardCycle ::
  "('c, 'x, 'n) Collaborators \<Rightarrow> 'c GameState \<Rightarrow> int \<Rightarrow> GameMetadata \<Rightarrow> 'c GameState run" where
  "clue_cardCycle C state giver metadata =
     (let giverHand = js_get (hands state) giver in
      (case cardCycle C giverHand (deck state) metadata of
         Inl e \<Rightarrow> Inl (e, state)
       | Inr None \<Rightarrow> Inr state
       | Inr (Some h') \<Rightarrow> Inr (state\<lparr>hands := (hands state)[nat giver := h']\<rparr>)))"

definition clue_branch ::
  "('c, 'x, 'n) Collaborators \<Rightarrow> 'c GameState \<Rightarrow> 'x GameAction \<Rightarrow> ClueType \<Rightarrow> int \<Rightarrow> int
    \<Rightarrow> CardOrder list \<Rightarrow> int \<Rightarrow> bool \<Rightarrow> bool \<Rightarrow> GameMetadata \<Rightarrow> Variant \<Rightarrow> 'c GameState run" where
  "clue_branch C state action ctype cvalue giver list' target ignoreNegative hypothetical
      metadata variant =
     call (getAdjusted C 1 variant) state (\<lambda>cost.
       let s1 = state\<lparr>clueTokens := clueTokens state - cost\<rparr> in
       (case segment (turn s1) of
          None \<Rightarrow> Inl (BeforeInitialDeal, s1)
        | Some seg \<Rightarrow>
            (case clue_negativeList s1 list' target ignoreNegative of
               Inl e \<Rightarrow> Inl (e, s1)
             | Inr negativeList \<Rightarrow>
                 let s2 = s1\<lparr>clues := clues s1 @
                            [\<lparr>type_clue = ctype, value_clue = cvalue, giver_clue = giver,
                              target_clue = target, segment_clue = seg, list_clue = list',
                              negativeList_clue = negativeList\<rparr>]\<rparr>;
                     targetHand = js_get (hands s2) target
                 in call (textRules_clue C action targetHand hypothetical metadata) s2 (\<lambda>text'.
                      clue_cardCycle C (push_log s2 text') giver metadata))))"

definition discard_branch ::
  "('c, 'x, 'n) Collaborators \<Rightarrow> 'c GameState \<Rightarrow> 'x GameAction \<Rightarrow> bool \<Rightarrow> bool \<Rightarrow> bool \<Rightarrow> bool
    \<Rightarrow> GameMetadata \<Rightarrow> Variant \<Rightarrow> 'c GameState run" where
  "discard_branch C state action playing shadowing finished hypothetical metadata variant =
     (case removeFromHand state (playerIndex action) (order action) of
        Inl x \<Rightarrow> Inl x
      | Inr (slot, s1) \<Rightarrow>
          and_then
            (case throwItInAHolePlayedOrMisplayed s1 action variant playing shadowing finished of
               (True, s2) \<Rightarrow> Inr s2
             | (False, s2) \<Rightarrow>
                 (case suitIndex action of
                    None \<Rightarrow> Inl (BadSuitIndexDiscarded None, s2)
                  | Some i \<Rightarrow>
                      if i < 0 then Inl (BadSuitIndexDiscarded (Some i), s2)
                      else
                        (case js_get (discardStacks s2) i of
                           None \<Rightarrow> Inl (TypeError, s2)
                         | Some stack \<Rightarrow>
                             let s3 = s2\<lparr>discardStacks :=
                                        (discardStacks s2)[nat i := stack @ [order action]]\<rparr>
                             in call (gain C action (clueTokens s3) variant None) s3
                                  (\<lambda>tokens. Inr (s3\<lparr>clueTokens := tokens\<rparr>)))))
            (\<lambda>s4.
               call (isClued C (js_get (deck s4) (order action))) s4 (\<lambda>touched.
               call (textRules_discard C action slot touched playing shadowing hypothetical
                       metadata) s4 (\<lambda>text'.
               Inr (push_log s4 text')))))"

text \<open>
  The \<open>draw\<close> branch: the counter and the hand first, then the "goes first" entry when
  the initial deal is finished. The name is \<open>metadata.playerNames[currentPlayerIndex]\<close>,
  rendered by a template literal, so a missing name reads "undefined".
\<close>

definition draw_card :: "'c GameState \<Rightarrow> 'x GameAction \<Rightarrow> 'c GameState" where
  "draw_card state action =
     (let s1 = state\<lparr>cardsRemainingInTheDeck := cardsRemainingInTheDeck state - 1\<rparr> in
      (case js_get (hands s1) (playerIndex action) of
         None \<Rightarrow> s1
       | Some hand \<Rightarrow>
           s1\<lparr>hands := (hands s1)[nat (playerIndex action) := hand @ [Some (order action)]]\<rparr>))"

definition goes_first_text :: "'c GameState \<Rightarrow> GameMetadata \<Rightarrow> string" where
  "goes_first_text state metadata =
     (let name = (case currentPlayerIndex (turn state) of
                    None \<Rightarrow> None
                  | Some i \<Rightarrow> js_get (playerNames metadata) i)
      in (case name of None \<Rightarrow> ''undefined'' | Some n \<Rightarrow> n) @ '' goes first'')"

definition draw_branch ::
  "('c, 'x, 'n) Collaborators \<Rightarrow> 'c GameState \<Rightarrow> 'x GameAction \<Rightarrow> GameMetadata \<Rightarrow> 'c GameState run" where
  "draw_branch C state action metadata =
     (let s2 = draw_card state action in
      call (isInitialDealFinished C (cardsRemainingInTheDeck s2) metadata) s2 (\<lambda>finished'.
        if finished' then Inr (push_log s2 (goes_first_text s2 metadata)) else Inr s2))"

definition gameOver_branch ::
  "('c, 'x, 'n) Collaborators \<Rightarrow> 'c GameState \<Rightarrow> EndCondition \<Rightarrow> int \<Rightarrow> int list option
    \<Rightarrow> GameMetadata \<Rightarrow> 'c GameState run" where
  "gameOver_branch C state endCondition playerIndex' votes metadata =
     (let s1 = (if endCondition \<noteq> Normal then state\<lparr>score := 0\<rparr> else state) in
      call (textRules_gameOver C endCondition playerIndex' (score s1) metadata votes) s1 (\<lambda>text'.
        Inr (push_log s1 text')))"

definition play_branch ::
  "('c, 'x, 'n) Collaborators \<Rightarrow> 'c GameState \<Rightarrow> 'x GameAction \<Rightarrow> bool \<Rightarrow> bool \<Rightarrow> bool \<Rightarrow> bool
    \<Rightarrow> GameMetadata \<Rightarrow> Variant \<Rightarrow> 'c GameState run" where
  "play_branch C state action playing shadowing finished hypothetical metadata variant =
     (case removeFromHand state (playerIndex action) (order action) of
        Inl x \<Rightarrow> Inl x
      | Inr (slot, s1) \<Rightarrow>
          and_then
            (case throwItInAHolePlayedOrMisplayed s1 action variant playing shadowing finished of
               (True, s2) \<Rightarrow> Inr s2
             | (False, s2) \<Rightarrow>
                 (case suitIndex action of
                    None \<Rightarrow> Inl (BadSuitIndexPlayed None, s2)
                  | Some i \<Rightarrow>
                      if i < 0 then Inl (BadSuitIndexPlayed (Some i), s2)
                      else
                        (case js_get (playStacks s2) i of
                           None \<Rightarrow> Inl (TypeError, s2)
                         | Some stack \<Rightarrow>
                             let playStack = stack @ [order action];
                                 s3 = s2\<lparr>playStacks := (playStacks s2)[nat i := playStack]\<rparr>
                             in call (gain C action (clueTokens s3) variant
                                        (Some (length playStack = 5))) s3
                                  (\<lambda>tokens. Inr (s3\<lparr>clueTokens := tokens\<rparr>)))))
            (\<lambda>s4.
               let s5 = s4\<lparr>score := score s4 + 1\<rparr> in
               call (isClued C (js_get (deck s5) (order action))) s5 (\<lambda>touched.
               call (textRules_play C action slot touched playing shadowing hypothetical
                       metadata) s5 (\<lambda>text'.
               Inr (push_log s5 text')))))"

text \<open>The loop of the \<open>playerTimes\<close> branch, at index \<open>i\<close> with the times still to do.\<close>

fun playerTimes_loop :: "GameMetadata \<Rightarrow> int list \<Rightarrow> int \<Rightarrow> 'c GameState \<Rightarrow> 'c GameState" where
  "playerTimes_loop metadata [] i state = state"
| "playerTimes_loop metadata (t # ts) i state =
     (let modifier = (if timed (options metadata) then 1 else - 1);
          milliseconds = t * modifier;
          durationString = millisecondsToClockString milliseconds;
          playerName = getPlayerName i metadata;
          text' = (if timed (options metadata)
                   then playerName @ '' had '' @ durationString @ '' left''
                   else playerName @ '' took: '' @ durationString)
      in playerTimes_loop metadata ts (i + 1) (push_log state text'))"

definition playerTimes_branch ::
  "'c GameState \<Rightarrow> int list \<Rightarrow> int \<Rightarrow> GameMetadata \<Rightarrow> 'c GameState" where
  "playerTimes_branch state playerTimes duration metadata =
     (let s1 = playerTimes_loop metadata playerTimes 0 state;
          clockString = millisecondsToClockString duration;
          text' = ''The total game duration was: '' @ clockString
      in push_log s1 text')"

definition strike_branch :: "'c GameState \<Rightarrow> CardOrder \<Rightarrow> 'c GameState" where
  "strike_branch state order' =
     state\<lparr>strikes := strikes state @
             [\<lparr>order_strike = order', segment_strike = segment (turn state)\<rparr>]\<rparr>"

fun actionBranch ::
  "('c, 'x, 'n) Collaborators \<Rightarrow> 'c GameState \<Rightarrow> 'x GameAction \<Rightarrow> bool \<Rightarrow> bool \<Rightarrow> bool \<Rightarrow> bool
    \<Rightarrow> GameMetadata \<Rightarrow> Variant \<Rightarrow> 'c GameState run" where
  "actionBranch C state (Clue ctype cvalue giver list' target turn' ignoreNegative)
      playing shadowing finished hypothetical metadata variant =
     clue_branch C state (Clue ctype cvalue giver list' target turn' ignoreNegative)
       ctype cvalue giver list' target ignoreNegative hypothetical metadata variant"
| "actionBranch C state (Discard p ord' s r f) playing shadowing finished hypothetical metadata
      variant =
     discard_branch C state (Discard p ord' s r f) playing shadowing finished hypothetical
       metadata variant"
| "actionBranch C state (Draw p ord' s r) playing shadowing finished hypothetical metadata
      variant =
     draw_branch C state (Draw p ord' s r) metadata"
| "actionBranch C state (GameOver endCondition p votes) playing shadowing finished
      hypothetical metadata variant =
     gameOver_branch C state endCondition p votes metadata"
| "actionBranch C state (Play p ord' s r) playing shadowing finished hypothetical metadata
      variant =
     play_branch C state (Play p ord' s r) playing shadowing finished hypothetical metadata
       variant"
| "actionBranch C state (PlayerTimes playerTimes duration) playing shadowing finished
      hypothetical metadata variant =
     Inr (playerTimes_branch state playerTimes duration metadata)"
| "actionBranch C state (Strike num turn' ord') playing shadowing finished hypothetical
      metadata variant =
     Inr (strike_branch state ord')"
| "actionBranch C state (SetEffMod x) playing shadowing finished hypothetical metadata variant =
     Inr state"
| "actionBranch C state (EditNote x) playing shadowing finished hypothetical metadata variant =
     Inr state"
| "actionBranch C state (NoteList x) playing shadowing finished hypothetical metadata variant =
     Inr state"
| "actionBranch C state (NoteListPlayer x) playing shadowing finished hypothetical metadata
      variant =
     Inr state"
| "actionBranch C state (ReceiveNote x) playing shadowing finished hypothetical metadata
      variant =
     Inr state"
| "actionBranch C state (Turn x) playing shadowing finished hypothetical metadata variant =
     Inr state"
| "actionBranch C state (CardIdentity x) playing shadowing finished hypothetical metadata
      variant =
     Inr state"

subsection \<open>The derivations after the switch\<close>

text \<open>
  \<open>base\<close> is the state before the action: \<open>original(state)\<close>, \<open>original(state.deck)\<close>,
  \<open>original(state.turn)\<close> and \<open>original(state.stats)\<close> read it. \<open>state\<close> is the draft.
\<close>

definition resolveDirection ::
  "('c, 'x, 'n) Collaborators \<Rightarrow> 'c GameState \<Rightarrow> 'x GameAction \<Rightarrow> Variant \<Rightarrow> 'c GameState run" where
  "resolveDirection C state action variant =
     (if is_Play action then
        call (hasReversedSuits C variant) state (\<lambda>reversed.
          if (reversed \<or> sudoku variant) \<and> suitIndex action \<noteq> Some (- 1) then
            let playStack = js_get_key (playStacks state) (suitIndex action) in
            call (direction C (suitIndex action) playStack (deck state) variant) state
              (\<lambda>direction'.
                 Inr (state\<lparr>playStackDirections :=
                        (playStackDirections state)(suitIndex action \<mapsto> direction')\<rparr>))
          else Inr state)
      else Inr state)"

definition resolveStart ::
  "('c, 'x, 'n) Collaborators \<Rightarrow> 'c GameState \<Rightarrow> 'x GameAction \<Rightarrow> Variant \<Rightarrow> 'c GameState run" where
  "resolveStart C state action variant =
     (if is_Play action \<and> sudoku variant then
        let playStack = js_get_key (playStacks state) (suitIndex action) in
        call (stackStartRank C playStack (deck state) variant) state (\<lambda>start.
          Inr (state\<lparr>playStackStarts := (playStackStarts state)(suitIndex action \<mapsto> start)\<rparr>))
      else Inr state)"

text \<open>
  The loop over \<open>variant.ranks\<close>. The right-hand side of the assignment is evaluated
  before the write to \<open>state.cardStatus[action.suitIndex]\<close>, which raises a TypeError
  when that row is \<open>undefined\<close>.
\<close>

fun cardStatus_loop ::
  "('c, 'x, 'n) Collaborators \<Rightarrow> 'x GameAction \<Rightarrow> Variant \<Rightarrow> int list \<Rightarrow> 'c GameState
    \<Rightarrow> 'c GameState run" where
  "cardStatus_loop C action variant [] state = Inr state"
| "cardStatus_loop C action variant (rank' # rest) state =
     (case status C (suitIndex action) rank' (deck state) (playStacks state)
             (playStackDirections state) (playStackStarts state) variant of
        Inl msg \<Rightarrow> Inl (Collaborator msg, state)
      | Inr status' \<Rightarrow>
          (case cardStatus state (suitIndex action) of
             None \<Rightarrow> Inl (TypeError, state)
           | Some row \<Rightarrow>
               cardStatus_loop C action variant rest
                 (state\<lparr>cardStatus :=
                    (cardStatus state)(suitIndex action \<mapsto> row(rank' \<mapsto> status'))\<rparr>)))"

definition resolveCardStatus ::
  "('c, 'x, 'n) Collaborators \<Rightarrow> 'c GameState \<Rightarrow> 'x GameAction \<Rightarrow> Variant \<Rightarrow> 'c GameState run" where
  "resolveCardStatus C state action variant =
     (if (is_Play action \<or> is_Discard action) \<and> suitIndex action \<noteq> Some (- 1)
          \<and> rank action \<noteq> - 1
      then cardStatus_loop C action variant (ranks variant) state
      else Inr state)"

definition derive ::
  "('c, 'x, 'n) Collaborators \<Rightarrow> 'c GameState \<Rightarrow> 'c GameState \<Rightarrow> 'x GameAction \<Rightarrow> bool \<Rightarrow> bool
    \<Rightarrow> GameMetadata \<Rightarrow> 'n list option \<Rightarrow> Variant \<Rightarrow> 'c GameState run" where
  "derive C base state action playing shadowing metadata ourNotes variant =
     call (cardsReducer C (deck base) action state metadata) state (\<lambda>deck1.
     and_then (resolveDirection C (state\<lparr>deck := deck1\<rparr>) action variant) (\<lambda>s2.
     and_then (resolveStart C s2 action variant) (\<lambda>s3.
     and_then (resolveCardStatus C s3 action variant) (\<lambda>s4.
     call (turnReducer C (turn base) action s4 metadata) s4 (\<lambda>turn'.
     let s5 = s4\<lparr>turn := turn'\<rparr> in
     call (statsReducer C (stats base) action base s5 playing shadowing metadata ourNotes) s5
       (\<lambda>stats'.
     let s6 = s5\<lparr>stats := stats'\<rparr> in
     call (ddaReducer C (deck s6) (doubleDiscard (stats s6)) (currentPlayerIndex (turn s6))) s6
       (\<lambda>deck2.
     let s7 = s6\<lparr>deck := deck2\<rparr> in
     call (knownTrashReducer C (deck s7) (playStacks s7) (playStackDirections s7)
             (playStackStarts s7) variant) s7
       (\<lambda>deck3. Inr (s7\<lparr>deck := deck3\<rparr>)))))))))"

subsection \<open>The recipe and the producer\<close>

definition gameStateReducerFunction ::
  "('c, 'x, 'n) Collaborators \<Rightarrow> 'c GameState \<Rightarrow> 'x GameAction \<Rightarrow> bool \<Rightarrow> bool \<Rightarrow> bool \<Rightarrow> bool
    \<Rightarrow> GameMetadata \<Rightarrow> 'n list option \<Rightarrow> 'c GameState run" where
  "gameStateReducerFunction C state action playing shadowing finished hypothetical metadata
      ourNotes =
     call (getVariant C (variantName (options metadata))) state (\<lambda>variant.
       and_then
         (actionBranch C state action playing shadowing finished hypothetical metadata variant)
         (\<lambda>s1.
            if is_NoteList action \<or> is_ReceiveNote action then Inr s1
            else derive C state s1 action playing shadowing metadata ourNotes variant))"

text \<open>
  \<open>produce\<close> is the draft library's: it runs the recipe on a draft of the base state.
  When the recipe returns, the result is the finished draft; when the recipe throws, the
  draft is dropped and the exception goes to the caller. The base state is a value and
  stays what it was.
\<close>

definition produce :: "('s \<Rightarrow> 's run) \<Rightarrow> 's \<Rightarrow> error + 's" where
  "produce recipe base =
     (case recipe base of Inl (e, draft) \<Rightarrow> Inl e | Inr draft \<Rightarrow> Inr draft)"

definition gameStateReducer ::
  "('c, 'x, 'n) Collaborators \<Rightarrow> 'c GameState \<Rightarrow> 'x GameAction \<Rightarrow> bool \<Rightarrow> bool \<Rightarrow> bool \<Rightarrow> bool
    \<Rightarrow> GameMetadata \<Rightarrow> 'n list option \<Rightarrow> error + 'c GameState" where
  "gameStateReducer C state action playing shadowing finished hypothetical metadata ourNotes =
     produce
       (\<lambda>draft. gameStateReducerFunction C draft action playing shadowing finished hypothetical
                  metadata ourNotes)
       state"

section \<open>Observations on a run\<close>

text \<open>
  The fields of the state that only the switch writes: the derivations after it assign
  \<open>deck\<close>, \<open>playStackDirections\<close>, \<open>playStackStarts\<close>, \<open>cardStatus\<close>, \<open>turn\<close> and
  \<open>stats\<close>, and nothing else.
\<close>

definition switch_fields ::
  "'c GameState \<Rightarrow> Hand list \<times> CardOrder list list \<times> CardOrder list list \<times> int \<times> int
    \<times> StateStrike list \<times> CardOrder list \<times> LogEntry list \<times> StateClue list \<times> int \<times> int" where
  "switch_fields s =
     (hands s, playStacks s, discardStacks s, clueTokens s, score s, strikes s, hole s, log s,
      clues s, cardsRemainingInTheDeck s, numAttemptedCardsPlayed s)"

text \<open>The hand after the card at index \<open>k\<close> has moved to the last index, the front of the hand.\<close>

definition moved_to_front :: "'a list \<Rightarrow> nat \<Rightarrow> 'a list" where
  "moved_to_front h k = take k h @ drop (Suc k) h @ [h ! k]"

text \<open>The errors that the reducer itself throws with \<open>throw new Error\<close>.\<close>

definition thrown_by_reducer :: "error \<Rightarrow> bool" where
  "thrown_by_reducer e =
     (case e of BeforeInitialDeal \<Rightarrow> True | BadSuitIndexDiscarded k \<Rightarrow> True
      | BadSuitIndexPlayed k \<Rightarrow> True | TypeError \<Rightarrow> False | Collaborator msg \<Rightarrow> False)"

section \<open>An example game\<close>

text \<open>
  Concrete collaborators, metadata and states, on which the theorems below are
  instantiated. A card state is the flag "has a positive clue"; the chop is the oldest
  card of a hand; the sub-reducers return what they are given.
\<close>

definition no_variant :: Variant where
  "no_variant = \<lparr>throwItInAHole = False, sudoku = False, ranks = [1, 2, 3, 4, 5]\<rparr>"

definition hole_variant :: Variant where
  "hole_variant = \<lparr>throwItInAHole = True, sudoku = False, ranks = [1, 2, 3, 4, 5]\<rparr>"

definition example_variants :: "string \<Rightarrow> string + Variant" where
  "example_variants name =
     (if name = ''No Variant'' then Inr no_variant
      else if name = ''Throw It in a Hole (6 Suits)'' then Inr hole_variant
      else Inl ''Unable to find the variant'')"

definition example_gain :: "unit GameAction \<Rightarrow> int \<Rightarrow> Variant \<Rightarrow> bool option \<Rightarrow> string + int" where
  "example_gain action tokens variant playStackComplete =
     Inr (if 8 \<le> tokens then tokens
          else if is_Play action then (if playStackComplete = Some True then tokens + 1 else tokens)
          else if is_Discard action \<and> \<not> failed action then tokens + 1
          else tokens)"

definition example_collaborators :: "(bool, unit, unit) Collaborators" where
  "example_collaborators =
     \<lparr>getVariant = example_variants,
      getAdjusted = (\<lambda>v variant. Inr v),
      gain = example_gain,
      isClued = (\<lambda>card. case card of None \<Rightarrow> Inl ''TypeError'' | Some c \<Rightarrow> Inr c),
      isInitialDealFinished = (\<lambda>remaining metadata. Inr (remaining = 40)),
      chopIndex = (\<lambda>hand deck'. case hand of None \<Rightarrow> Inl ''TypeError'' | Some h \<Rightarrow> Inr 0),
      hasReversedSuits = (\<lambda>variant. Inr False),
      direction = (\<lambda>i stack deck' variant. Inr 0),
      stackStartRank = (\<lambda>stack deck' variant. Inr None),
      status = (\<lambda>i r deck' stacks dirs starts variant. Inr 0),
      getCardName = (\<lambda>i r variant. Inr ''a named card''),
      textRules_clue = (\<lambda>action hand hypothetical metadata. Inr ''a clue is given''),
      textRules_gameOver = (\<lambda>e p sc metadata votes. Inr ''the game is over''),
      cardsReducer = (\<lambda>deck' action state metadata. Inr deck'),
      turnReducer = (\<lambda>turn' action state metadata. Inr turn'),
      statsReducer = (\<lambda>stats' action base state playing shadowing metadata notes. Inr stats'),
      ddaReducer = (\<lambda>deck' dd current. Inr deck'),
      knownTrashReducer = (\<lambda>deck' stacks dirs starts variant. Inr deck')\<rparr>"

text \<open>The same collaborators, with sub-reducers that throw whenever they are called.\<close>

definition throwing_collaborators :: "(bool, unit, unit) Collaborators" where
  "throwing_collaborators =
     example_collaborators
       \<lparr>cardsReducer := (\<lambda>deck' action state metadata. Inl ''cardsReducer was called''),
        turnReducer := (\<lambda>turn' action state metadata. Inl ''turnReducer was called''),
        statsReducer := (\<lambda>stats' action base state playing shadowing metadata notes.
                           Inl ''statsReducer was called''),
        ddaReducer := (\<lambda>deck' dd current. Inl ''ddaReducer was called''),
        knownTrashReducer := (\<lambda>deck' stacks dirs starts variant.
                                Inl ''knownTrashReducer was called'')\<rparr>"


definition example_metadata :: GameMetadata where
  "example_metadata =
     \<lparr>options = \<lparr>variantName = ''No Variant'', optCardCycle = True, timed = False\<rparr>,
      playerNames = [''Alice'', ''Bob'']\<rparr>"

definition hole_metadata :: GameMetadata where
  "hole_metadata =
     \<lparr>options = \<lparr>variantName = ''Throw It in a Hole (6 Suits)'', optCardCycle = False,
                 timed = False\<rparr>,
      playerNames = [''Alice'', ''Bob'']\<rparr>"

definition example_stats :: StatsState where
  "example_stats =
     \<lparr>maxScore = 25, maxScorePerStack = [5, 5, 5, 5, 5], pace = Some 3, paceRisk = 0,
      finalRoundEffectivelyStarted = False, cardsGotten = 4, potentialCluesLost = 5,
      cluesStillUsable = None, cluesStillUsableNotRounded = None, cardsGottenByNotes = None,
      doubleDiscard = None, numSubsequentBlindPlays = 0, numSubsequentMisplays = 0,
      numAttemptedCardsPlayed_stats = 0\<rparr>"

text \<open>
  Two players hold the cards 0, 1, 2 and 3, 4, 5; the cards 6 to 9 are on the play stack of
  suit 0; card 1 has a clue on it.
\<close>

definition example_state :: "bool GameState" where
  "example_state =
     \<lparr>deck = [False, True, False, False, False, False, False, False, False, False],
      hands = [[Some 0, Some 1, Some 2], [Some 3, Some 4, Some 5]],
      playStacks = [[6, 7, 8, 9], [], [], [], []],
      discardStacks = [[], [], [], [], []],
      playStackDirections = Map.empty,
      playStackStarts = Map.empty,
      cardStatus = (\<lambda>k. if k \<in> {Some 0, Some 1, Some 2, Some 3, Some 4} then Some Map.empty
                         else None),
      clueTokens = 3,
      score = 4,
      strikes = [],
      hole = [],
      turn = \<lparr>segment = Some 7, turnNum = 7, currentPlayerIndex = Some 0\<rparr>,
      stats = example_stats,
      log = [],
      clues = [],
      cardsRemainingInTheDeck = 40,
      numAttemptedCardsPlayed = 0\<rparr>"

text \<open>The same state before the turn segment is set.\<close>

definition undealt_state :: "bool GameState" where
  "undealt_state =
     example_state\<lparr>turn := \<lparr>segment = None, turnNum = 0, currentPlayerIndex = Some 0\<rparr>\<rparr>"

text \<open>The states that the example runs below return.\<close>

definition after_play :: "bool GameState" where
  "after_play =
     example_state
       \<lparr>hands := [[Some 0, Some 1], [Some 3, Some 4, Some 5]],
        playStacks := [[6, 7, 8, 9, 2], [], [], [], []],
        cardStatus := (cardStatus example_state)
                        (Some 0 \<mapsto> [1 \<mapsto> 0, 2 \<mapsto> 0, 3 \<mapsto> 0, 4 \<mapsto> 0, 5 \<mapsto> 0]),
        clueTokens := 4,
        score := 5,
        log := [\<lparr>turn_log = 8,
                 text_log = ''Alice plays a named card from slot #1 (blind)''\<rparr>]\<rparr>"




definition after_discard_absent :: "bool GameState" where
  "after_discard_absent =
     example_state
       \<lparr>discardStacks := [[], [7], [], [], []],
        cardStatus := (cardStatus example_state)
                        (Some 1 \<mapsto> [1 \<mapsto> 0, 2 \<mapsto> 0, 3 \<mapsto> 0, 4 \<mapsto> 0, 5 \<mapsto> 0]),
        clueTokens := 4,
        log := [\<lparr>turn_log = 8, text_log = ''Alice discards a named card from the deck''\<rparr>]\<rparr>"

definition after_clue :: "bool GameState" where
  "after_clue =
     example_state
       \<lparr>hands := [[Some 1, Some 2, Some 0], [Some 3, Some 4, Some 5]],
        clueTokens := 2,
        log := [\<lparr>turn_log = 8, text_log = ''a clue is given''\<rparr>],
        clues := [\<lparr>type_clue = Rank, value_clue = 3, giver_clue = 0, target_clue = 1,
                   segment_clue = 7, list_clue = [4], negativeList_clue = [Some 3, Some 5]\<rparr>]\<rparr>"

definition after_strike :: "bool GameState" where
  "after_strike =
     example_state\<lparr>strikes := [\<lparr>order_strike = 2, segment_strike = Some 7\<rparr>]\<rparr>"

definition after_draw :: "bool GameState" where
  "after_draw =
     example_state
       \<lparr>hands := [[Some 0, Some 1, Some 2, Some 10], [Some 3, Some 4, Some 5]],
        cardsRemainingInTheDeck := 39\<rparr>"

section \<open>Auxiliary facts\<close>

subsection \<open>Runs\<close>

lemma call_Inr_iff: "call r s k = Inr s' \<longleftrightarrow> (\<exists>x. r = Inr x \<and> k x = Inr s')"
  by (cases r) (simp_all add: call_def)

lemma call_Inl_iff:
  "call r s k = Inl z \<longleftrightarrow> (\<exists>msg. r = Inl msg \<and> z = (Collaborator msg, s)) \<or> (\<exists>x. r = Inr x \<and> k x = Inl z)"
  by (cases r) (auto simp: call_def)

lemma and_then_Inr_iff: "and_then r k = Inr s' \<longleftrightarrow> (\<exists>s. r = Inr s \<and> k s = Inr s')"
  by (cases r) (simp_all add: and_then_def)

lemma and_then_Inl_iff:
  "and_then r k = Inl z \<longleftrightarrow> r = Inl z \<or> (\<exists>s. r = Inr s \<and> k s = Inl z)"
  by (cases r) (auto simp: and_then_def)

lemma produce_Inr_iff: "produce f s = Inr s' \<longleftrightarrow> f s = Inr s'"
  by (auto simp: produce_def split: sum.splits)

lemma produce_Inl_iff: "produce f s = Inl e \<longleftrightarrow> (\<exists>d. f s = Inl (e, d))"
  by (auto simp: produce_def split: sum.splits)

lemma resolveDirection_fields:
  "resolveDirection C s a v = Inr s' \<Longrightarrow> switch_fields s' = switch_fields s"
  by (auto simp: resolveDirection_def call_Inr_iff switch_fields_def Let_def split: if_splits)

lemma resolveStart_fields:
  "resolveStart C s a v = Inr s' \<Longrightarrow> switch_fields s' = switch_fields s"
  by (auto simp: resolveStart_def call_Inr_iff switch_fields_def Let_def split: if_splits)

lemma cardStatus_loop_fields:
  "cardStatus_loop C a v rs s = Inr s' \<Longrightarrow> switch_fields s' = switch_fields s"
proof (induction rs arbitrary: s)
  case Nil
  then show ?case by simp
next
  case (Cons r rs)
  from Cons.prems obtain st row where
    "cardStatus_loop C a v rs (s\<lparr>cardStatus := (cardStatus s)(suitIndex a \<mapsto> row(r \<mapsto> st))\<rparr>) = Inr s'"
    by (auto split: sum.splits option.splits)
  from Cons.IH[OF this] show ?case by (simp add: switch_fields_def)
qed

lemma resolveCardStatus_fields:
  "resolveCardStatus C s a v = Inr s' \<Longrightarrow> switch_fields s' = switch_fields s"
  by (auto simp: resolveCardStatus_def dest: cardStatus_loop_fields split: if_splits)

lemma derive_fields:
  assumes "derive C base s a pl sh md notes v = Inr s'"
  shows "switch_fields s' = switch_fields s"
proof -
  from assms obtain d1 s2 s3 s4 t st d2 d3 where
    s2: "resolveDirection C (s\<lparr>deck := d1\<rparr>) a v = Inr s2" and
    s3: "resolveStart C s2 a v = Inr s3" and
    s4: "resolveCardStatus C s3 a v = Inr s4" and
    s': "s' = s4\<lparr>turn := t, stats := st, deck := d2, deck := d3\<rparr>"
    unfolding derive_def call_Inr_iff and_then_Inr_iff Let_def by auto
  have "switch_fields s4 = switch_fields (s\<lparr>deck := d1\<rparr>)"
    using resolveDirection_fields[OF s2] resolveStart_fields[OF s3] resolveCardStatus_fields[OF s4]
    by simp
  then show ?thesis by (simp add: s' switch_fields_def)
qed

lemma reducer_Inr_iff:
  "gameStateReducer C s a pl sh fi hy md notes = Inr s' \<longleftrightarrow>
     (\<exists>v s1. getVariant C (variantName (options md)) = Inr v
        \<and> actionBranch C s a pl sh fi hy md v = Inr s1
        \<and> (if is_NoteList a \<or> is_ReceiveNote a then s' = s1
            else derive C s s1 a pl sh md notes v = Inr s'))"
  unfolding gameStateReducer_def produce_Inr_iff gameStateReducerFunction_def call_Inr_iff
    and_then_Inr_iff
  by auto

lemma reducer_fields:
  assumes "gameStateReducer C s a pl sh fi hy md notes = Inr s'"
  obtains v s1 where "getVariant C (variantName (options md)) = Inr v"
    and "actionBranch C s a pl sh fi hy md v = Inr s1"
    and "switch_fields s' = switch_fields s1"
proof -
  from assms obtain v s1 where v: "getVariant C (variantName (options md)) = Inr v"
    and b: "actionBranch C s a pl sh fi hy md v = Inr s1"
    and d: "if is_NoteList a \<or> is_ReceiveNote a then s' = s1
            else derive C s s1 a pl sh md notes v = Inr s'"
    unfolding reducer_Inr_iff by blast
  have "switch_fields s' = switch_fields s1"
    using d derive_fields by (auto split: if_splits)
  with v b that show thesis by blast
qed

subsection \<open>Arrays and the helpers of the reducer\<close>

lemma indexOf_range: "indexOf xs x = - 1 \<or> (0 \<le> indexOf xs x \<and> indexOf xs x < int (length xs))"
  by (induction xs) (auto simp: Let_def)

lemma indexOf_absent: "indexOf xs x = - 1 \<longleftrightarrow> x \<notin> set xs"
proof (induction xs)
  case Nil
  then show ?case by simp
next
  case (Cons y ys)
  have "indexOf ys x = - 1 \<or> 0 \<le> indexOf ys x" using indexOf_range[of ys x] by auto
  with Cons show ?case by (auto simp: Let_def)
qed

lemma indexOf_nth: "indexOf xs x \<noteq> - 1 \<Longrightarrow> xs ! nat (indexOf xs x) = x"
proof (induction xs)
  case Nil
  then show ?case by simp
next
  case (Cons y ys)
  show ?case
  proof (cases "y = x")
    case True
    then show ?thesis by simp
  next
    case False
    with Cons.prems have ne: "indexOf ys x \<noteq> - 1" by (auto simp: Let_def split: if_splits)
    then have "0 \<le> indexOf ys x" using indexOf_range[of ys x] by auto
    then have "nat (indexOf ys x + 1) = Suc (nat (indexOf ys x))" by simp
    with False ne Cons.IH show ?thesis by (simp add: Let_def)
  qed
qed

lemma splice1_in_range:
  "0 \<le> k \<Longrightarrow> k < int (length xs) \<Longrightarrow>
     splice1 xs k = (take (nat k) xs @ drop (Suc (nat k)) xs, [xs ! nat k])"
  by (simp add: splice1_def Let_def min_def take_Suc_conv_app_nth[symmetric] drop_Suc
        take_Suc hd_drop_conv_nth)

lemma removeFromHand_Inr:
  assumes "removeFromHand s p ord = Inr (slot, s1)"
  obtains hand where "js_get (hands s) p = Some hand"
    and "slot = (if indexOf hand (Some ord) \<noteq> - 1
                 then Some (int (length hand) - indexOf hand (Some ord)) else None)"
    and "s1 = (if indexOf hand (Some ord) \<noteq> - 1
               then s\<lparr>hands := (hands s)[nat p := fst (splice1 hand (indexOf hand (Some ord)))]\<rparr>
               else s)"
  using assms by (auto simp: removeFromHand_def Let_def split: option.splits if_splits)

lemma removeFromHand_Inl:
  "removeFromHand s p ord = Inl z \<longleftrightarrow> js_get (hands s) p = None \<and> z = (TypeError, s)"
  by (auto simp: removeFromHand_def Let_def split: option.splits if_splits)

lemma hole_fst:
  "fst (throwItInAHolePlayedOrMisplayed s a v pl sh fi) \<longleftrightarrow>
     throwItInAHole v \<and> (pl \<or> sh) \<and> \<not> fi \<and> (is_Play a \<or> (is_Discard a \<and> failed a))"
  by (auto simp: throwItInAHolePlayedOrMisplayed_def)

lemma hole_snd:
  "snd (throwItInAHolePlayedOrMisplayed s a v pl sh fi) =
     (if fst (throwItInAHolePlayedOrMisplayed s a v pl sh fi)
      then s\<lparr>hole := hole s @ [order a], numAttemptedCardsPlayed := numAttemptedCardsPlayed s + 1\<rparr>
      else s)"
  by (auto simp: throwItInAHolePlayedOrMisplayed_def)

subsection \<open>The play branch\<close>

lemma removeFromHand_deck:
  "removeFromHand s p ord = Inr (slot, s1) \<Longrightarrow>
     deck s1 = deck s \<and> turn s1 = turn s \<and> log s1 = log s \<and> score s1 = score s
     \<and> clueTokens s1 = clueTokens s \<and> playStacks s1 = playStacks s
     \<and> discardStacks s1 = discardStacks s \<and> hole s1 = hole s
     \<and> numAttemptedCardsPlayed s1 = numAttemptedCardsPlayed s"
  by (erule removeFromHand_Inr) auto

lemma play_branch_Inr:
  assumes "play_branch C s a pl sh fi hy md v = Inr s'"
  obtains slot s1 s4 touched text' where
    "removeFromHand s (playerIndex a) (order a) = Inr (slot, s1)"
    and "if fst (throwItInAHolePlayedOrMisplayed s1 a v pl sh fi)
         then s4 = snd (throwItInAHolePlayedOrMisplayed s1 a v pl sh fi)
         else (\<exists>i stack tokens. suitIndex a = Some i \<and> 0 \<le> i
                \<and> js_get (playStacks s1) i = Some stack
                \<and> gain C a (clueTokens s1) v (Some (length (stack @ [order a]) = 5)) = Inr tokens
                \<and> s4 = s1\<lparr>playStacks := (playStacks s1)[nat i := stack @ [order a]],
                          clueTokens := tokens\<rparr>)"
    and "isClued C (js_get (deck s) (order a)) = Inr touched"
    and "textRules_play C a slot touched pl sh hy md = Inr text'"
    and "s' = push_log (s4\<lparr>score := score s4 + 1\<rparr>) text'"
proof -
  from assms obtain slot s1 where r: "removeFromHand s (playerIndex a) (order a) = Inr (slot, s1)"
    by (auto simp: play_branch_def split: sum.splits)
  note d = removeFromHand_deck[OF r]
  from assms r obtain s4 touched text' where
    mid: "(case throwItInAHolePlayedOrMisplayed s1 a v pl sh fi of
             (True, s2) \<Rightarrow> Inr s2
           | (False, s2) \<Rightarrow>
               (case suitIndex a of
                  None \<Rightarrow> Inl (BadSuitIndexPlayed None, s2)
                | Some i \<Rightarrow>
                    if i < 0 then Inl (BadSuitIndexPlayed (Some i), s2)
                    else
                      (case js_get (playStacks s2) i of
                         None \<Rightarrow> Inl (TypeError, s2)
                       | Some stack \<Rightarrow>
                           let playStack = stack @ [order a];
                               s3 = s2\<lparr>playStacks := (playStacks s2)[nat i := playStack]\<rparr>
                           in call (gain C a (clueTokens s3) v (Some (length playStack = 5))) s3
                                (\<lambda>tokens. Inr (s3\<lparr>clueTokens := tokens\<rparr>))))) = Inr s4"
    and t: "isClued C (js_get (deck (s4\<lparr>score := score s4 + 1\<rparr>)) (order a)) = Inr touched"
    and x: "textRules_play C a slot touched pl sh hy md = Inr text'"
    and s': "s' = push_log (s4\<lparr>score := score s4 + 1\<rparr>) text'"
    by (auto simp: play_branch_def and_then_Inr_iff call_Inr_iff Let_def)
  have m: "if fst (throwItInAHolePlayedOrMisplayed s1 a v pl sh fi)
         then s4 = snd (throwItInAHolePlayedOrMisplayed s1 a v pl sh fi)
         else (\<exists>i stack tokens. suitIndex a = Some i \<and> 0 \<le> i
                \<and> js_get (playStacks s1) i = Some stack
                \<and> gain C a (clueTokens s1) v (Some (length (stack @ [order a]) = 5)) = Inr tokens
                \<and> s4 = s1\<lparr>playStacks := (playStacks s1)[nat i := stack @ [order a]],
                          clueTokens := tokens\<rparr>)"
    using mid
    by (auto simp: throwItInAHolePlayedOrMisplayed_def call_Inr_iff Let_def
        split: if_splits option.splits)
  have "deck s4 = deck s1"
    using m by (auto simp: hole_snd split: if_splits)
  with t d have "isClued C (js_get (deck s) (order a)) = Inr touched" by simp
  with r m x s' that show thesis by blast
qed

subsection \<open>Evaluation on the example game\<close>

lemmas reducer_unfold =
  gameStateReducer_def produce_def gameStateReducerFunction_def call_def and_then_def
  derive_def resolveDirection_def resolveStart_def resolveCardStatus_def
  play_branch_def discard_branch_def clue_branch_def clue_negativeList_def
  clue_cardCycle_def draw_branch_def draw_card_def goes_first_text_def gameOver_branch_def
  playerTimes_branch_def strike_branch_def removeFromHand_def push_log_def cardCycle_def
  throwItInAHolePlayedOrMisplayed_def js_get_def js_get_key_def splice1_def includes_js_def
  textRules_play_def textRules_discard_def getPlayerName_def location_text_def HYPO_PREFIX_def

lemmas example_unfold =
  example_collaborators_def example_variants_def no_variant_def hole_variant_def
  example_gain_def example_metadata_def
  hole_metadata_def example_state_def undealt_state_def throwing_collaborators_def

lemma render_nat_digit: "n < 10 \<Longrightarrow> render_nat n [] = [digit n]"
  by (subst render_nat.simps) (simp add: Let_def)

lemmas eval_simps =
  reducer_unfold example_unfold Let_def render_int_def render_nat_digit digit_def

lemma eval_play:
  "gameStateReducer example_collaborators example_state (Play 0 2 (Some 0) 5)
     True False False False example_metadata None = Inr after_play"
  by (simp add: after_play_def eval_simps)


subsection \<open>Failures, and the discard branch\<close>

lemma thrown_simps [simp]:
  "thrown_by_reducer BeforeInitialDeal" "thrown_by_reducer (BadSuitIndexDiscarded k)"
  "thrown_by_reducer (BadSuitIndexPlayed k)" "\<not> thrown_by_reducer TypeError"
  "\<not> thrown_by_reducer (Collaborator msg)"
  by (simp_all add: thrown_by_reducer_def)

lemma resolveDirection_Inl:
  "resolveDirection C s a v = Inl (e, d) \<Longrightarrow> \<not> thrown_by_reducer e"
  by (auto simp: resolveDirection_def call_Inl_iff Let_def split: if_splits)

lemma resolveStart_Inl:
  "resolveStart C s a v = Inl (e, d) \<Longrightarrow> \<not> thrown_by_reducer e"
  by (auto simp: resolveStart_def call_Inl_iff Let_def split: if_splits)

lemma cardStatus_loop_Inl:
  "cardStatus_loop C a v rs s = Inl (e, d) \<Longrightarrow> \<not> thrown_by_reducer e"
proof (induction rs arbitrary: s)
  case Nil
  then show ?case by simp
next
  case (Cons r rs)
  then show ?case by (auto split: sum.splits option.splits)
qed

lemma resolveCardStatus_Inl:
  "resolveCardStatus C s a v = Inl (e, d) \<Longrightarrow> \<not> thrown_by_reducer e"
  by (auto simp: resolveCardStatus_def dest: cardStatus_loop_Inl split: if_splits)

lemma derive_Inl:
  "derive C base s a pl sh md notes v = Inl (e, d) \<Longrightarrow> \<not> thrown_by_reducer e"
  unfolding derive_def call_Inl_iff and_then_Inl_iff Let_def
  by (auto dest: resolveDirection_Inl resolveStart_Inl resolveCardStatus_Inl)

lemma reducer_Inl_thrown:
  assumes "gameStateReducer C s a pl sh fi hy md notes = Inl e" and "thrown_by_reducer e"
  obtains v d where "getVariant C (variantName (options md)) = Inr v"
    and "actionBranch C s a pl sh fi hy md v = Inl (e, d)"
proof -
  from assms(1) obtain d where
    "gameStateReducerFunction C s a pl sh fi hy md notes = Inl (e, d)"
    by (auto simp: gameStateReducer_def produce_Inl_iff)
  with assms(2) that show thesis
    by (auto simp: gameStateReducerFunction_def call_Inl_iff and_then_Inl_iff
        dest: derive_Inl split: if_splits)
qed

lemma reducer_Inl_branch:
  assumes "getVariant C (variantName (options md)) = Inr v"
    and "actionBranch C s a pl sh fi hy md v = Inl (e, d)"
  shows "gameStateReducer C s a pl sh fi hy md notes = Inl e"
  using assms
  by (simp add: gameStateReducer_def produce_def gameStateReducerFunction_def call_def
      and_then_def)

lemma discard_branch_Inr:
  assumes "discard_branch C s a pl sh fi hy md v = Inr s'"
  obtains slot s1 s4 touched text' where
    "removeFromHand s (playerIndex a) (order a) = Inr (slot, s1)"
    and "if fst (throwItInAHolePlayedOrMisplayed s1 a v pl sh fi)
         then s4 = snd (throwItInAHolePlayedOrMisplayed s1 a v pl sh fi)
         else (\<exists>i stack tokens. suitIndex a = Some i \<and> 0 \<le> i
                \<and> js_get (discardStacks s1) i = Some stack
                \<and> gain C a (clueTokens s1) v None = Inr tokens
                \<and> s4 = s1\<lparr>discardStacks := (discardStacks s1)[nat i := stack @ [order a]],
                          clueTokens := tokens\<rparr>)"
    and "isClued C (js_get (deck s) (order a)) = Inr touched"
    and "textRules_discard C a slot touched pl sh hy md = Inr text'"
    and "s' = push_log s4 text'"
proof -
  from assms obtain slot s1 where r: "removeFromHand s (playerIndex a) (order a) = Inr (slot, s1)"
    by (auto simp: discard_branch_def split: sum.splits)
  note d = removeFromHand_deck[OF r]
  from assms r obtain s4 touched text' where
    mid: "(case throwItInAHolePlayedOrMisplayed s1 a v pl sh fi of
             (True, s2) \<Rightarrow> Inr s2
           | (False, s2) \<Rightarrow>
               (case suitIndex a of
                  None \<Rightarrow> Inl (BadSuitIndexDiscarded None, s2)
                | Some i \<Rightarrow>
                    if i < 0 then Inl (BadSuitIndexDiscarded (Some i), s2)
                    else
                      (case js_get (discardStacks s2) i of
                         None \<Rightarrow> Inl (TypeError, s2)
                       | Some stack \<Rightarrow>
                           let s3 = s2\<lparr>discardStacks :=
                                      (discardStacks s2)[nat i := stack @ [order a]]\<rparr>
                           in call (gain C a (clueTokens s3) v None) s3
                                (\<lambda>tokens. Inr (s3\<lparr>clueTokens := tokens\<rparr>))))) = Inr s4"
    and t: "isClued C (js_get (deck s4) (order a)) = Inr touched"
    and x: "textRules_discard C a slot touched pl sh hy md = Inr text'"
    and s': "s' = push_log s4 text'"
    by (auto simp: discard_branch_def and_then_Inr_iff call_Inr_iff Let_def)
  have m: "if fst (throwItInAHolePlayedOrMisplayed s1 a v pl sh fi)
         then s4 = snd (throwItInAHolePlayedOrMisplayed s1 a v pl sh fi)
         else (\<exists>i stack tokens. suitIndex a = Some i \<and> 0 \<le> i
                \<and> js_get (discardStacks s1) i = Some stack
                \<and> gain C a (clueTokens s1) v None = Inr tokens
                \<and> s4 = s1\<lparr>discardStacks := (discardStacks s1)[nat i := stack @ [order a]],
                          clueTokens := tokens\<rparr>)"
    using mid
    by (auto simp: throwItInAHolePlayedOrMisplayed_def call_Inr_iff Let_def
        split: if_splits option.splits)
  have "deck s4 = deck s1"
    using m by (auto simp: hole_snd split: if_splits)
  with t d have "isClued C (js_get (deck s) (order a)) = Inr touched" by simp
  with r m x s' that show thesis by blast
qed

lemma play_branch_Inl_thrown:
  assumes "play_branch C s a pl sh fi hy md v = Inl (e, d)" and "thrown_by_reducer e"
  shows "\<not> fst (throwItInAHolePlayedOrMisplayed s a v pl sh fi) \<and> e = BadSuitIndexPlayed (suitIndex a)
          \<and> (suitIndex a = None \<or> (\<exists>i. suitIndex a = Some i \<and> i < 0))"
  using assms
  by (auto simp: play_branch_def removeFromHand_Inl and_then_Inl_iff call_Inl_iff Let_def
        throwItInAHolePlayedOrMisplayed_def
      split: sum.splits prod.splits bool.splits option.splits if_splits)

lemma discard_branch_Inl_thrown:
  assumes "discard_branch C s a pl sh fi hy md v = Inl (e, d)" and "thrown_by_reducer e"
  shows "\<not> fst (throwItInAHolePlayedOrMisplayed s a v pl sh fi) \<and> e = BadSuitIndexDiscarded (suitIndex a)
          \<and> (suitIndex a = None \<or> (\<exists>i. suitIndex a = Some i \<and> i < 0))"
  using assms
  by (auto simp: discard_branch_def removeFromHand_Inl and_then_Inl_iff call_Inl_iff Let_def
        throwItInAHolePlayedOrMisplayed_def
      split: sum.splits prod.splits bool.splits option.splits if_splits)

lemma removeFromHand_Some:
  "js_get (hands s) p = Some hand \<Longrightarrow>
     removeFromHand s p ord =
       Inr (if indexOf hand (Some ord) \<noteq> - 1
            then (Some (int (length hand) - indexOf hand (Some ord)),
                  s\<lparr>hands := (hands s)[nat p := fst (splice1 hand (indexOf hand (Some ord)))]\<rparr>)
            else (None, s))"
  by (simp add: removeFromHand_def Let_def)

lemma eval_discard_absent:
  "gameStateReducer example_collaborators example_state (Discard 0 7 (Some 1) 5 False)
     True False False False example_metadata None = Inr after_discard_absent"
  by (simp add: after_discard_absent_def eval_simps)

subsection \<open>A clue before the deal\<close>

lemma clue_before_deal:
  fixes C :: "('c, 'x, 'n) Collaborators"
  assumes "segment (turn state) = None"
  shows "gameStateReducerFunction C state (Clue ct cv giver lst target trn ign) playing shadowing
           finished hypothetical metadata ourNotes =
         (case getVariant C (variantName (options metadata)) of
            Inl msg \<Rightarrow> Inl (Collaborator msg, state)
          | Inr variant \<Rightarrow>
              (case getAdjusted C 1 variant of
                 Inl msg \<Rightarrow> Inl (Collaborator msg, state)
               | Inr cost \<Rightarrow> Inl (BeforeInitialDeal, state\<lparr>clueTokens := clueTokens state - cost\<rparr>)))"
  using assms
  by (simp add: gameStateReducerFunction_def call_def and_then_def clue_branch_def Let_def
      split: sum.splits)

subsection \<open>The clue branch\<close>

lemma cardCycle_Inr:
  assumes "cardCycle C hand deck' metadata = Inr r" and "optCardCycle (options metadata)"
  obtains h ci where "hand = Some h" and "chopIndex C (Some h) deck' = Inr ci"
    and "r = Some (if ci = int (length h) - 1 then h
                   else fst (splice1 h ci)
                        @ [case snd (splice1 h ci) of [] \<Rightarrow> None | x # xs \<Rightarrow> x])"
  using assms
  by (auto simp: cardCycle_def Let_def split: sum.splits option.splits if_splits prod.splits)

lemma call_Inr: "call (Inr x) s k = k x"
  by (simp add: call_def)

lemma clue_cardCycle_Inr:
  assumes "clue_cardCycle C s giver md = Inr s'"
  obtains r where "cardCycle C (js_get (hands s) giver) (deck s) md = Inr r"
    and "s' = (case r of None \<Rightarrow> s | Some h' \<Rightarrow> s\<lparr>hands := (hands s)[nat giver := h']\<rparr>)"
  using assms
  by (auto simp: clue_cardCycle_def Let_def split: sum.splits option.splits)

lemma clue_branch_Inr:
  assumes "clue_branch C s a ct cv giver lst target ign hy md v = Inr s'"
  obtains cost seg nl text' where "getAdjusted C 1 v = Inr cost"
    and "segment (turn s) = Some seg"
    and "textRules_clue C a (js_get (hands s) target) hy md = Inr text'"
    and "clue_cardCycle C
           (push_log (s\<lparr>clueTokens := clueTokens s - cost,
              clues := clues s @
                [\<lparr>type_clue = ct, value_clue = cv, giver_clue = giver, target_clue = target,
                  segment_clue = seg, list_clue = lst, negativeList_clue = nl\<rparr>]\<rparr>) text')
           giver md = Inr s'"
proof -
  from assms obtain cost where c: "getAdjusted C 1 v = Inr cost"
    by (auto simp: clue_branch_def call_Inr_iff)
  from assms c obtain seg where seg: "segment (turn s) = Some seg"
    by (cases "segment (turn s)") (auto simp: clue_branch_def call_def Let_def)
  from assms c seg obtain nl where
    nl: "clue_negativeList (s\<lparr>clueTokens := clueTokens s - cost\<rparr>) lst target ign = Inr nl"
    by (cases "clue_negativeList (s\<lparr>clueTokens := clueTokens s - cost\<rparr>) lst target ign")
      (auto simp: clue_branch_def call_Inr Let_def)
  from assms have "\<exists>text'. textRules_clue C a (js_get (hands s) target) hy md = Inr text'
      \<and> clue_cardCycle C
           (push_log (s\<lparr>clueTokens := clueTokens s - cost,
              clues := clues s @
                [\<lparr>type_clue = ct, value_clue = cv, giver_clue = giver, target_clue = target,
                  segment_clue = seg, list_clue = lst, negativeList_clue = nl\<rparr>]\<rparr>) text')
           giver md = Inr s'"
    by (simp add: clue_branch_def c call_Inr seg Let_def nl call_Inr_iff)
  with c seg that show thesis by blast
qed

lemma eval_clue:
  "gameStateReducer example_collaborators example_state (Clue Rank 3 0 [4] 1 7 False)
     True False False False example_metadata None = Inr after_clue"
  by (simp add: after_clue_def eval_simps)

lemma clue_branch_cycle:
  assumes "clue_branch C s a ct cv giver lst target ign hy md v = Inr s1"
  shows "\<exists>s3 text'. hands s3 = hands s \<and> deck s3 = deck s \<and> turn s3 = turn s
           \<and> log s3 = log s @ [\<lparr>turn_log = turnNum (turn s) + 1, text_log = text'\<rparr>]
           \<and> clue_cardCycle C s3 giver md = Inr s1"
  using assms
proof (rule clue_branch_Inr)
  fix cost seg nl text'
  let ?s3 = "push_log (s\<lparr>clueTokens := clueTokens s - cost,
              clues := clues s @
                [\<lparr>type_clue = ct, value_clue = cv, giver_clue = giver, target_clue = target,
                  segment_clue = seg, list_clue = lst, negativeList_clue = nl\<rparr>]\<rparr>) text'"
  assume "clue_cardCycle C ?s3 giver md = Inr s1"
  moreover have "hands ?s3 = hands s" "deck ?s3 = deck s" "turn ?s3 = turn s"
    "log ?s3 = log s @ [\<lparr>turn_log = turnNum (turn s) + 1, text_log = text'\<rparr>]"
    by (simp_all add: push_log_def)
  ultimately show ?thesis by blast
qed

lemma clue_cardCycle_frame:
  assumes "clue_cardCycle C s giver md = Inr s'"
  shows "log s' = log s \<and> turn s' = turn s \<and> deck s' = deck s"
  using assms by (rule clue_cardCycle_Inr) (auto split: option.splits)

subsection \<open>The log entries of each branch\<close>

lemma playerTimes_loop_log:
  "\<exists>es. log (playerTimes_loop md ts i s) = log s @ es \<and> length es = length ts
        \<and> (\<forall>e\<in>set es. turn_log e = turnNum (turn s) + 1)
        \<and> turn (playerTimes_loop md ts i s) = turn s"
proof (induction ts arbitrary: i s)
  case Nil
  then show ?case by simp
next
  case (Cons t ts)
  have "\<exists>text'. playerTimes_loop md (t # ts) i s
                = playerTimes_loop md ts (i + 1) (push_log s text')"
    unfolding playerTimes_loop.simps Let_def by (rule exI) (rule refl)
  then obtain text' where
    unf: "playerTimes_loop md (t # ts) i s = playerTimes_loop md ts (i + 1) (push_log s text')" ..
  let ?s = "push_log s text'"
  from Cons.IH[of "i + 1" ?s] obtain es where
    es: "log (playerTimes_loop md ts (i + 1) ?s) = log ?s @ es" "length es = length ts"
    "\<forall>e\<in>set es. turn_log e = turnNum (turn ?s) + 1"
    "turn (playerTimes_loop md ts (i + 1) ?s) = turn ?s"
    by blast
  let ?es = "\<lparr>turn_log = turnNum (turn s) + 1, text_log = text'\<rparr> # es"
  have "log (playerTimes_loop md (t # ts) i s) = log s @ ?es"
    unfolding unf using es(1) by (simp add: push_log_def)
  moreover have "length ?es = length (t # ts)" using es(2) by simp
  moreover have "\<forall>e\<in>set ?es. turn_log e = turnNum (turn s) + 1"
    using es(3) by (simp add: push_log_def)
  moreover have "turn (playerTimes_loop md (t # ts) i s) = turn s"
    unfolding unf using es(4) by (simp add: push_log_def)
  ultimately show ?case by blast
qed

lemma playerTimes_branch_log:
  "\<exists>es. log (playerTimes_branch s ts d md) = log s @ es \<and> length es = length ts + 1
        \<and> (\<forall>e\<in>set es. turn_log e = turnNum (turn s) + 1)"
proof -
  from playerTimes_loop_log[of md ts 0 s] obtain es where
    es: "log (playerTimes_loop md ts 0 s) = log s @ es" "length es = length ts"
    "\<forall>e\<in>set es. turn_log e = turnNum (turn s) + 1"
    "turn (playerTimes_loop md ts 0 s) = turn s"
    by blast
  let ?e = "\<lparr>turn_log = turnNum (turn s) + 1,
             text_log = ''The total game duration was: '' @ millisecondsToClockString d\<rparr>"
  have "log (playerTimes_branch s ts d md) = log s @ (es @ [?e])"
    using es(1,4) by (simp add: playerTimes_branch_def Let_def push_log_def)
  moreover have "length (es @ [?e]) = length ts + 1" using es(2) by simp
  moreover have "\<forall>e\<in>set (es @ [?e]). turn_log e = turnNum (turn s) + 1"
    using es(3) by simp
  ultimately show ?thesis by blast
qed

lemma clue_branch_log:
  assumes "clue_branch C s a ct cv giver lst target ign hy md v = Inr s'"
  shows "\<exists>text'. log s' = log s @ [\<lparr>turn_log = turnNum (turn s) + 1, text_log = text'\<rparr>]"
proof -
  from clue_branch_cycle[OF assms] obtain s3 text' where
    "log s3 = log s @ [\<lparr>turn_log = turnNum (turn s) + 1, text_log = text'\<rparr>]"
    and "clue_cardCycle C s3 giver md = Inr s'"
    by blast
  with clue_cardCycle_frame[of C s3 giver md s'] show ?thesis by auto
qed

lemma discard_branch_log:
  assumes "discard_branch C s a pl sh fi hy md v = Inr s'"
  shows "\<exists>text'. log s' = log s @ [\<lparr>turn_log = turnNum (turn s) + 1, text_log = text'\<rparr>]"
  using assms
proof (rule discard_branch_Inr)
  fix slot r1 s4 touched text'
  assume r: "removeFromHand s (playerIndex a) (order a) = Inr (slot, r1)"
    and m: "if fst (throwItInAHolePlayedOrMisplayed r1 a v pl sh fi)
            then s4 = snd (throwItInAHolePlayedOrMisplayed r1 a v pl sh fi)
            else (\<exists>i stack tokens. suitIndex a = Some i \<and> 0 \<le> i
                   \<and> js_get (discardStacks r1) i = Some stack
                   \<and> gain C a (clueTokens r1) v None = Inr tokens
                   \<and> s4 = r1\<lparr>discardStacks := (discardStacks r1)[nat i := stack @ [order a]],
                             clueTokens := tokens\<rparr>)"
    and s': "s' = push_log s4 text'"
  have "log s4 = log r1 \<and> turn s4 = turn r1"
    using m by (auto simp: hole_snd split: if_splits)
  with removeFromHand_deck[OF r] show ?thesis
    by (simp add: s' push_log_def)
qed

lemma play_branch_log:
  assumes "play_branch C s a pl sh fi hy md v = Inr s'"
  shows "\<exists>text'. log s' = log s @ [\<lparr>turn_log = turnNum (turn s) + 1, text_log = text'\<rparr>]"
  using assms
proof (rule play_branch_Inr)
  fix slot r1 s4 touched text'
  assume r: "removeFromHand s (playerIndex a) (order a) = Inr (slot, r1)"
    and m: "if fst (throwItInAHolePlayedOrMisplayed r1 a v pl sh fi)
            then s4 = snd (throwItInAHolePlayedOrMisplayed r1 a v pl sh fi)
            else (\<exists>i stack tokens. suitIndex a = Some i \<and> 0 \<le> i
                   \<and> js_get (playStacks r1) i = Some stack
                   \<and> gain C a (clueTokens r1) v (Some (length (stack @ [order a]) = 5))
                       = Inr tokens
                   \<and> s4 = r1\<lparr>playStacks := (playStacks r1)[nat i := stack @ [order a]],
                             clueTokens := tokens\<rparr>)"
    and s': "s' = push_log (s4\<lparr>score := score s4 + 1\<rparr>) text'"
  have "log s4 = log r1 \<and> turn s4 = turn r1"
    using m by (auto simp: hole_snd split: if_splits)
  with removeFromHand_deck[OF r] show ?thesis
    by (simp add: s' push_log_def)
qed

lemma gameOver_branch_log:
  assumes "gameOver_branch C s ec p votes md = Inr s'"
  shows "\<exists>text'. log s' = log s @ [\<lparr>turn_log = turnNum (turn s) + 1, text_log = text'\<rparr>]"
proof -
  let ?s1 = "if ec \<noteq> Normal then s\<lparr>score := 0\<rparr> else s"
  have fr: "log ?s1 = log s" "turn ?s1 = turn s" by simp_all
  from assms obtain text' where "s' = push_log ?s1 text'"
    unfolding gameOver_branch_def Let_def call_Inr_iff by blast
  then have "log s' = log s @ [\<lparr>turn_log = turnNum (turn s) + 1, text_log = text'\<rparr>]"
    unfolding push_log_def using fr by simp
  then show ?thesis ..
qed

lemma draw_card_frame:
  "cardsRemainingInTheDeck (draw_card s a) = cardsRemainingInTheDeck s - 1
   \<and> log (draw_card s a) = log s \<and> turn (draw_card s a) = turn s"
  by (simp add: draw_card_def Let_def split: option.splits)

lemma draw_branch_log:
  assumes "draw_branch C s a md = Inr s'"
  shows "\<exists>fin. isInitialDealFinished C (cardsRemainingInTheDeck s - 1) md = Inr fin
           \<and> (\<exists>es. log s' = log s @ es \<and> length es = (if fin then 1 else 0)
                 \<and> (\<forall>e\<in>set es. turn_log e = turnNum (turn s) + 1))"
proof -
  let ?s2 = "draw_card s a"
  note fr = draw_card_frame[of s a]
  from assms obtain fin where
    fin: "isInitialDealFinished C (cardsRemainingInTheDeck ?s2) md = Inr fin"
    and res: "s' = (if fin then push_log ?s2 (goes_first_text ?s2 md) else ?s2)"
    unfolding draw_branch_def Let_def call_Inr_iff by (auto split: if_splits)
  show ?thesis
  proof (cases fin)
    case True
    with res have "s' = push_log ?s2 (goes_first_text ?s2 md)"
      by simp
    then have "log s' = log s @ [\<lparr>turn_log = turnNum (turn s) + 1,
                                   text_log = goes_first_text ?s2 md\<rparr>]"
      by (simp add: push_log_def fr)
    with fin True show ?thesis by (auto simp: fr)
  next
    case False
    with res have "s' = ?s2" by simp
    with fin False show ?thesis by (auto simp: fr)
  qed
qed

lemma eval_strike:
  "gameStateReducer example_collaborators example_state (Strike 1 7 2)
     True False False False example_metadata None = Inr after_strike"
  by (simp add: after_strike_def eval_simps)

lemma eval_draw:
  "gameStateReducer example_collaborators example_state (Draw 0 10 (Some 1) 2)
     True False False False example_metadata None = Inr after_draw"
  by (simp add: after_draw_def eval_simps)

subsection \<open>The path to the hole\<close>

























section \<open>The claims\<close>

subsection \<open>C1: a play adds one to the score\<close>

text \<open>
  C1. For every \<open>play\<close> action and every prior state, when the reducer returns a state, its
  score is the prior score plus one, whether the card went to the hole or onto a play
  stack.
\<close>

theorem play_increments_score:
  assumes "gameStateReducer C state (Play p ord si rk) playing shadowing finished hypothetical
             metadata ourNotes = Inr state'"
  shows "score state' = score state + 1"
proof -
  let ?a = "Play p ord si rk"
  from assms obtain v s1 where
    b: "actionBranch C state ?a playing shadowing finished hypothetical metadata v = Inr s1"
    and f: "switch_fields state' = switch_fields s1"
    by (rule reducer_fields)
  from b have "play_branch C state ?a playing shadowing finished hypothetical metadata v = Inr s1"
    by simp
  then have "score s1 = score state + 1"
  proof (rule play_branch_Inr)
    fix slot r1 s4 touched text'
    assume r: "removeFromHand state (playerIndex ?a) (order ?a) = Inr (slot, r1)"
      and m: "if fst (throwItInAHolePlayedOrMisplayed r1 ?a v playing shadowing finished)
            then s4 = snd (throwItInAHolePlayedOrMisplayed r1 ?a v playing shadowing finished)
            else (\<exists>i stack tokens. suitIndex ?a = Some i \<and> 0 \<le> i
                   \<and> js_get (playStacks r1) i = Some stack
                   \<and> gain C ?a (clueTokens r1) v (Some (length (stack @ [order ?a]) = 5))
                       = Inr tokens
                   \<and> s4 = r1\<lparr>playStacks := (playStacks r1)[nat i := stack @ [order ?a]],
                             clueTokens := tokens\<rparr>)"
      and s1: "s1 = push_log (s4\<lparr>score := score s4 + 1\<rparr>) text'"
    have "score s4 = score r1"
      using m by (auto simp: hole_snd split: if_splits)
    also have "\<dots> = score state"
      using removeFromHand_deck[OF r] by simp
    finally show "score s1 = score state + 1"
      by (simp add: s1 push_log_def)
  qed
  moreover have "score state' = score s1"
    using f by (simp add: switch_fields_def)
  ultimately show ?thesis by simp
qed

theorem play_increments_score_witness:
  "gameStateReducer example_collaborators example_state (Play 0 2 (Some 0) 5)
     True False False False example_metadata None = Inr after_play
   \<and> score after_play = score example_state + 1"
  using play_increments_score[OF eval_play] eval_play by simp

subsection \<open>C3: a clue before the turn segment is set\<close>

text \<open>
  C3. For every state whose turn segment is \<open>null\<close>, the reducer applied to a \<open>clue\<close>
  action fails: it returns an error to the caller and no state. When the variant lookup
  and the clue cost return, the error is the sequencing error "before all of the initial
  cards were dealt".
\<close>

theorem clue_before_deal_fails:
  fixes C :: "('c, 'x, 'n) Collaborators"
  assumes "segment (turn state) = None"
  shows "(\<exists>e. gameStateReducer C state (Clue ct cv giver lst target trn ign) playing shadowing
                finished hypothetical metadata ourNotes = Inl e)
     \<and> (\<forall>variant cost.
           getVariant C (variantName (options metadata)) = Inr variant
           \<longrightarrow> getAdjusted C 1 variant = Inr cost
           \<longrightarrow> gameStateReducer C state (Clue ct cv giver lst target trn ign) playing shadowing
                 finished hypothetical metadata ourNotes = Inl BeforeInitialDeal)"
  by (auto simp: gameStateReducer_def produce_def clue_before_deal[OF assms] split: sum.splits)

theorem clue_before_deal_fails_witness:
  "segment (turn undealt_state) = None
   \<and> gameStateReducer example_collaborators undealt_state (Clue Rank 3 0 [4] 1 0 False)
        True False False False example_metadata None = Inl BeforeInitialDeal"
proof -
  have s: "segment (turn undealt_state) = None"
    by (simp add: undealt_state_def)
  have v: "getVariant example_collaborators (variantName (options example_metadata))
             = Inr no_variant"
    by (simp add: example_unfold)
  have c: "getAdjusted example_collaborators 1 no_variant = Inr 1"
    by (simp add: example_collaborators_def)
  note t = clue_before_deal_fails[OF s, of example_collaborators Rank 3 0 "[4]" 1 0 False
      True False False False example_metadata None]
  from t[THEN conjunct2, THEN spec, THEN spec, THEN mp, THEN mp, OF v c] s
  show ?thesis by (intro conjI)
qed

subsection \<open>C4: the stack-completed bonus of a play\<close>



subsection \<open>C5: an invalid suit index where the stacks are touched\<close>

text \<open>
  C5. For a \<open>play\<close> or a \<open>discard\<close> whose suit index is not a number or is negative and
  whose card is not redirected to the hole, the reducer fails. When the hand of the player
  exists, the branch reaches the stacks and the failure is the invalid-suit-index error of
  that branch; when it does not exist, the removal from the hand has already failed with a
  TypeError, which is an invalid input as well.
\<close>

theorem invalid_suit_index_fails:
  fixes C :: "('c, 'x, 'n) Collaborators"
  assumes v: "getVariant C (variantName (options metadata)) = Inr variant"
    and bad: "si = None \<or> (\<exists>i. si = Some i \<and> i < 0)"
  shows
    "(\<not> fst (throwItInAHolePlayedOrMisplayed state (Discard p ord si rk fl :: 'x GameAction) variant playing
              shadowing finished)
        \<longrightarrow> gameStateReducer C state (Discard p ord si rk fl) playing shadowing finished
              hypothetical metadata ourNotes
            = Inl (case js_get (hands state) p of
                     None \<Rightarrow> TypeError
                   | Some hand \<Rightarrow> BadSuitIndexDiscarded si))
     \<and> (\<not> fst (throwItInAHolePlayedOrMisplayed state (Play p ord si rk :: 'x GameAction) variant playing
                shadowing finished)
        \<longrightarrow> gameStateReducer C state (Play p ord si rk) playing shadowing finished
              hypothetical metadata ourNotes
            = Inl (case js_get (hands state) p of
                     None \<Rightarrow> TypeError
                   | Some hand \<Rightarrow> BadSuitIndexPlayed si))"
proof (cases "js_get (hands state) p")
  case None
  then have r: "removeFromHand state p ord = Inl (TypeError, state)"
    by (simp add: removeFromHand_Inl)
  have "actionBranch C state (Discard p ord si rk fl) playing shadowing finished
          hypothetical metadata variant = Inl (TypeError, state)"
    by (simp add: discard_branch_def r)
  from reducer_Inl_branch[OF v this]
  have d: "gameStateReducer C state (Discard p ord si rk fl) playing shadowing finished
             hypothetical metadata ourNotes = Inl TypeError" .
  have "actionBranch C state (Play p ord si rk) playing shadowing finished
          hypothetical metadata variant = Inl (TypeError, state)"
    by (simp add: play_branch_def r)
  from reducer_Inl_branch[OF v this]
  have "gameStateReducer C state (Play p ord si rk) playing shadowing finished
          hypothetical metadata ourNotes = Inl TypeError" .
  with d None show ?thesis by simp
next
  case (Some hand)
  obtain slot s1 where r: "removeFromHand state p ord = Inr (slot, s1)"
    using removeFromHand_Some[OF Some, of ord]
    by (cases "indexOf hand (Some ord) \<noteq> - 1") auto
  have d: "gameStateReducer C state (Discard p ord si rk fl) playing shadowing finished
              hypothetical metadata ourNotes = Inl (BadSuitIndexDiscarded si)"
    if n: "\<not> fst (throwItInAHolePlayedOrMisplayed state (Discard p ord si rk fl :: 'x GameAction) variant
                     playing shadowing finished)"
  proof -
    from n have n1: "throwItInAHolePlayedOrMisplayed s1 (Discard p ord si rk fl :: 'x GameAction) variant playing
                shadowing finished = (False, s1)"
      by (auto simp: throwItInAHolePlayedOrMisplayed_def)
    have "discard_branch C state (Discard p ord si rk fl) playing shadowing finished
            hypothetical metadata variant = Inl (BadSuitIndexDiscarded si, s1)"
      using bad by (auto simp: discard_branch_def r n1 and_then_def)
    then have "actionBranch C state (Discard p ord si rk fl) playing shadowing finished
                 hypothetical metadata variant = Inl (BadSuitIndexDiscarded si, s1)"
      by simp
    from reducer_Inl_branch[OF v this] show ?thesis .
  qed
  have pl: "gameStateReducer C state (Play p ord si rk) playing shadowing finished
              hypothetical metadata ourNotes = Inl (BadSuitIndexPlayed si)"
    if n: "\<not> fst (throwItInAHolePlayedOrMisplayed state (Play p ord si rk :: 'x GameAction) variant
                     playing shadowing finished)"
  proof -
    from n have n1: "throwItInAHolePlayedOrMisplayed s1 (Play p ord si rk :: 'x GameAction) variant playing
                shadowing finished = (False, s1)"
      by (auto simp: throwItInAHolePlayedOrMisplayed_def)
    have "play_branch C state (Play p ord si rk) playing shadowing finished
            hypothetical metadata variant = Inl (BadSuitIndexPlayed si, s1)"
      using bad by (auto simp: play_branch_def r n1 and_then_def)
    then have "actionBranch C state (Play p ord si rk) playing shadowing finished
                 hypothetical metadata variant = Inl (BadSuitIndexPlayed si, s1)"
      by simp
    from reducer_Inl_branch[OF v this] show ?thesis .
  qed
  from d pl Some show ?thesis by simp
qed

theorem invalid_suit_index_fails_witness:
  "getVariant example_collaborators (variantName (options example_metadata)) = Inr no_variant
   \<and> js_get (hands example_state) 0 = Some [Some 0, Some 1, Some 2]
   \<and> gameStateReducer example_collaborators example_state (Discard 0 2 (Some (- 1)) 5 False)
        True False False False example_metadata None = Inl (BadSuitIndexDiscarded (Some (- 1)))
   \<and> gameStateReducer example_collaborators example_state (Play 0 2 (Some (- 1)) 5)
        True False False False example_metadata None = Inl (BadSuitIndexPlayed (Some (- 1)))"
proof -
  have v: "getVariant example_collaborators (variantName (options example_metadata))
             = Inr no_variant"
    by (simp add: example_unfold)
  have h: "js_get (hands example_state) 0 = Some [Some 0, Some 1, Some 2]"
    by (simp add: js_get_def example_state_def)
  have bad: "Some (- 1 :: int) = None \<or> (\<exists>i. Some (- 1 :: int) = Some i \<and> i < 0)"
    by simp
  have n1: "\<not> fst (throwItInAHolePlayedOrMisplayed example_state
                    (Discard 0 2 (Some (- 1)) 5 False :: unit GameAction)
                    no_variant True False False)"
    by (simp add: hole_fst no_variant_def)
  have n2: "\<not> fst (throwItInAHolePlayedOrMisplayed example_state
                    (Play 0 2 (Some (- 1)) 5 :: unit GameAction)
                    no_variant True False False)"
    by (simp add: hole_fst no_variant_def)
  note t = invalid_suit_index_fails[OF v bad, of example_state 0 2 5 False True False False
      False None]
  note t1 = t[THEN conjunct1, THEN mp, OF n1, unfolded h option.case]
  note t2 = t[THEN conjunct2, THEN mp, OF n2, unfolded h option.case]
  show ?thesis
    by (intro conjI v h t1 t2)
qed

subsection \<open>C6: the slot of a discard\<close>

text \<open>
  C6. For a \<open>discard\<close> action by a player whose hand exists, the index of the card is -1
  exactly when the card is not in the hand. When the card is in the hand,
  the removal yields the slot "hand length minus index" and the hand without the card;
  when the card is not in the hand, the removal does not throw, leaves the state as it is
  and yields the slot \<open>null\<close>. When the reducer returns, the log has one more entry, whose
  text is the narration of the discard called with that slot and whose turn is the turn
  number plus one, and the hands are as the removal left them.
\<close>

theorem discard_slot:
  fixes C :: "('c, 'x, 'n) Collaborators"
  assumes h: "js_get (hands state) p = Some hand"
  shows
    "(indexOf hand (Some ord) = - 1 \<longleftrightarrow> Some ord \<notin> set hand)
     \<and> removeFromHand state p ord =
       Inr (if indexOf hand (Some ord) \<noteq> - 1
            then (Some (int (length hand) - indexOf hand (Some ord)),
                  state\<lparr>hands := (hands state)
                           [nat p := take (nat (indexOf hand (Some ord))) hand
                                     @ drop (Suc (nat (indexOf hand (Some ord)))) hand]\<rparr>)
            else (None, state))
     \<and> (\<forall>state'.
          gameStateReducer C state (Discard p ord si rk fl) playing shadowing finished
            hypothetical metadata ourNotes = Inr state'
          \<longrightarrow> (\<exists>touched text'.
                 isClued C (js_get (deck state) ord) = Inr touched
                 \<and> textRules_discard C (Discard p ord si rk fl)
                      (if indexOf hand (Some ord) \<noteq> - 1
                       then Some (int (length hand) - indexOf hand (Some ord)) else None)
                      touched playing shadowing hypothetical metadata = Inr text'
                 \<and> log state' = log state
                      @ [\<lparr>turn_log = turnNum (turn state) + 1, text_log = text'\<rparr>]
                 \<and> hands state' =
                     (if indexOf hand (Some ord) \<noteq> - 1
                      then (hands state)
                             [nat p := take (nat (indexOf hand (Some ord))) hand
                                       @ drop (Suc (nat (indexOf hand (Some ord)))) hand]
                      else hands state)))"
proof (intro conjI allI impI)
  let ?a = "Discard p ord si rk fl :: 'x GameAction"
  let ?k = "indexOf hand (Some ord)"
  let ?hands = "if ?k \<noteq> - 1
                then (hands state)[nat p := take (nat ?k) hand @ drop (Suc (nat ?k)) hand]
                else hands state"
  let ?slot = "if ?k \<noteq> - 1 then Some (int (length hand) - ?k) else None"
  have sp: "?k \<noteq> - 1 \<Longrightarrow> fst (splice1 hand ?k) = take (nat ?k) hand @ drop (Suc (nat ?k)) hand"
    using indexOf_range[of hand "Some ord"] by (simp add: splice1_in_range)
  show "?k = - 1 \<longleftrightarrow> Some ord \<notin> set hand"
    by (rule indexOf_absent)
  show rm: "removeFromHand state p ord =
       Inr (if ?k \<noteq> - 1
            then (Some (int (length hand) - ?k), state\<lparr>hands := (hands state)
                           [nat p := take (nat ?k) hand @ drop (Suc (nat ?k)) hand]\<rparr>)
            else (None, state))"
    using removeFromHand_Some[OF h, of ord] sp by simp
  fix state'
  assume ok: "gameStateReducer C state ?a playing shadowing finished hypothetical metadata
                ourNotes = Inr state'"
  from ok obtain v s1 where
    b: "actionBranch C state ?a playing shadowing finished hypothetical metadata v = Inr s1"
    and f: "switch_fields state' = switch_fields s1"
    by (rule reducer_fields)
  from b have "discard_branch C state ?a playing shadowing finished hypothetical metadata v
                 = Inr s1"
    by simp
  then have "\<exists>touched text'.
       isClued C (js_get (deck state) ord) = Inr touched
       \<and> textRules_discard C ?a ?slot touched playing shadowing hypothetical metadata = Inr text'
       \<and> log s1 = log state @ [\<lparr>turn_log = turnNum (turn state) + 1, text_log = text'\<rparr>]
       \<and> hands s1 = ?hands"
  proof (rule discard_branch_Inr)
    fix slot r1 s4 touched text'
    assume r: "removeFromHand state (playerIndex ?a) (order ?a) = Inr (slot, r1)"
      and m: "if fst (throwItInAHolePlayedOrMisplayed r1 ?a v playing shadowing finished)
            then s4 = snd (throwItInAHolePlayedOrMisplayed r1 ?a v playing shadowing finished)
            else (\<exists>i stack tokens. suitIndex ?a = Some i \<and> 0 \<le> i
                   \<and> js_get (discardStacks r1) i = Some stack
                   \<and> gain C ?a (clueTokens r1) v None = Inr tokens
                   \<and> s4 = r1\<lparr>discardStacks := (discardStacks r1)[nat i := stack @ [order ?a]],
                             clueTokens := tokens\<rparr>)"
      and t: "isClued C (js_get (deck state) (order ?a)) = Inr touched"
      and x: "textRules_discard C ?a slot touched playing shadowing hypothetical metadata
                = Inr text'"
      and s1: "s1 = push_log s4 text'"
    from r rm have slot: "slot = ?slot" and r1: "r1 = state\<lparr>hands := ?hands\<rparr>"
      by (auto split: if_splits)
    have s4: "hands s4 = hands r1 \<and> log s4 = log r1 \<and> turn s4 = turn r1"
      using m by (auto simp: hole_snd split: if_splits)
    have "log s1 = log state @ [\<lparr>turn_log = turnNum (turn state) + 1, text_log = text'\<rparr>]"
      using s4 by (simp add: s1 push_log_def r1)
    moreover have "hands s1 = ?hands"
      using s4 by (simp add: s1 push_log_def r1)
    ultimately show ?thesis
      using t x slot by auto
  qed
  moreover from f have "log state' = log s1" "hands state' = hands s1"
    by (simp_all add: switch_fields_def)
  ultimately show "\<exists>touched text'.
       isClued C (js_get (deck state) ord) = Inr touched
       \<and> textRules_discard C ?a ?slot touched playing shadowing hypothetical metadata = Inr text'
       \<and> log state' = log state @ [\<lparr>turn_log = turnNum (turn state) + 1, text_log = text'\<rparr>]
       \<and> hands state' = ?hands"
    by simp
qed

theorem discard_slot_witness:
  "js_get (hands example_state) 0 = Some [Some 0, Some 1, Some 2]
   \<and> Some (7 :: int) \<notin> set [Some 0, Some 1, Some 2]
   \<and> removeFromHand example_state 0 7 = Inr (None, example_state)
   \<and> gameStateReducer example_collaborators example_state (Discard 0 7 (Some 1) 5 False)
        True False False False example_metadata None = Inr after_discard_absent
   \<and> textRules_discard example_collaborators (Discard 0 7 (Some 1) 5 False) None False
        True False False example_metadata = Inr ''Alice discards a named card from the deck''
   \<and> log after_discard_absent = log example_state
        @ [\<lparr>turn_log = turnNum (turn example_state) + 1,
             text_log = ''Alice discards a named card from the deck''\<rparr>]
   \<and> hands after_discard_absent = hands example_state"
proof -
  have h: "js_get (hands example_state) 0 = Some [Some 0, Some 1, Some 2]"
    by (simp add: js_get_def example_state_def)
  have k: "indexOf [Some 0, Some 1, Some 2] (Some (7 :: int)) = - 1"
    by simp
  note t0 = discard_slot[OF h, of 7 example_collaborators "Some 1" 5 False True False False
      False example_metadata None]
  from t0[THEN conjunct1] k have nk: "Some (7 :: int) \<notin> set [Some 0, Some 1, Some 2]"
    by (simp only: simp_thms)
  note t = t0[THEN conjunct2]
  from t[THEN conjunct1] have rm: "removeFromHand example_state 0 7 = Inr (None, example_state)"
    by (simp only: k simp_thms if_False)
  note t2 = t[THEN conjunct2, THEN spec, THEN mp, OF eval_discard_absent]
  have cl: "isClued example_collaborators (js_get (deck example_state) 7) = Inr False"
    by (simp add: example_collaborators_def js_get_def example_state_def)
  from t2 cl obtain text' where
    x: "textRules_discard example_collaborators (Discard 0 7 (Some 1) 5 False) None False
          True False False example_metadata = Inr text'"
    and l: "log after_discard_absent = log example_state
              @ [\<lparr>turn_log = turnNum (turn example_state) + 1, text_log = text'\<rparr>]"
    and hd: "hands after_discard_absent = hands example_state"
    by (auto simp only: k simp_thms if_False sum.inject)
  have tx: "textRules_discard example_collaborators (Discard 0 7 (Some 1) 5 False) None False
        True False False example_metadata = Inr ''Alice discards a named card from the deck''"
    by (simp add: eval_simps)
  from x tx have "text' = ''Alice discards a named card from the deck''" by simp
  with l have l': "log after_discard_absent = log example_state
        @ [\<lparr>turn_log = turnNum (turn example_state) + 1,
             text_log = ''Alice discards a named card from the deck''\<rparr>]"
    by simp
  show ?thesis
    by (intro conjI h nk rm eval_discard_absent tx l' hd)
qed

subsection \<open>C7: note lists and received notes change nothing\<close>

text \<open>
  C7. When the variant lookup returns, the reducer applied to a \<open>noteList\<close> or a
  \<open>receiveNote\<close> action returns the prior state itself, for all collaborators: no
  sub-reducer and no rule is called, so the result is the same when every sub-reducer
  would throw.
\<close>

theorem note_actions_change_nothing:
  fixes C :: "('c, 'x, 'n) Collaborators"
  assumes "getVariant C (variantName (options metadata)) = Inr variant"
  shows "gameStateReducer C state (NoteList x) playing shadowing finished hypothetical metadata
           ourNotes = Inr state
     \<and> gameStateReducer C state (ReceiveNote x) playing shadowing finished hypothetical metadata
           ourNotes = Inr state"
  using assms
  by (simp add: gameStateReducer_def produce_def gameStateReducerFunction_def call_def
      and_then_def)

theorem note_actions_change_nothing_witness:
  "getVariant throwing_collaborators (variantName (options example_metadata)) = Inr no_variant
   \<and> gameStateReducer throwing_collaborators example_state (NoteList ()) True False False False
        example_metadata None = Inr example_state
   \<and> gameStateReducer throwing_collaborators example_state (ReceiveNote ()) True False False
        False example_metadata None = Inr example_state
   \<and> gameStateReducer throwing_collaborators example_state (EditNote ()) True False False
        False example_metadata None = Inl (Collaborator ''cardsReducer was called'')"
proof -
  have v: "getVariant throwing_collaborators (variantName (options example_metadata))
             = Inr no_variant"
    by (simp add: example_unfold)
  have e: "gameStateReducer throwing_collaborators example_state (EditNote ()) True False False
        False example_metadata None = Inl (Collaborator ''cardsReducer was called'')"
    by (simp add: eval_simps)
  note t = note_actions_change_nothing[OF v, of example_state "()" True False False False None]
  show ?thesis
    by (intro conjI v t[THEN conjunct1] t[THEN conjunct2] e)
qed

subsection \<open>C8: card cycling\<close>

text \<open>
  C8. For a \<open>clue\<close> action with the card-cycling option on, a returning run had a hand for
  the giver and a chop index for it. When the chop index designates a card of the hand,
  the hands afterwards are the prior hands with the giver's chop card moved to the last
  index of the giver's hand (the front, slot 1) and the other cards in their order;
  when the chop card is already there, the hands are unchanged.
\<close>

theorem card_cycle_moves_chop:
  fixes C :: "('c, 'x, 'n) Collaborators"
  assumes ok: "gameStateReducer C state (Clue ct cv giver lst target trn ign) playing shadowing
                 finished hypothetical metadata ourNotes = Inr state'"
    and cc: "optCardCycle (options metadata)"
  shows "\<exists>h ci. js_get (hands state) giver = Some h
           \<and> chopIndex C (Some h) (deck state) = Inr ci
           \<and> (0 \<le> ci \<and> ci < int (length h)
                \<longrightarrow> hands state' =
                      (if ci = int (length h) - 1 then hands state
                       else (hands state)[nat giver := moved_to_front h (nat ci)]))"
proof -
  let ?a = "Clue ct cv giver lst target trn ign :: 'x GameAction"
  from ok obtain v s1 where
    b: "actionBranch C state ?a playing shadowing finished hypothetical metadata v = Inr s1"
    and f: "switch_fields state' = switch_fields s1"
    by (rule reducer_fields)
  from b have "clue_branch C state ?a ct cv giver lst target ign hypothetical metadata v = Inr s1"
    by simp
  from clue_branch_cycle[OF this] obtain s3 where s3: "hands s3 = hands state"
    "deck s3 = deck state"
    and cy: "clue_cardCycle C s3 giver metadata = Inr s1"
    by blast
  from cy obtain r where
    r: "cardCycle C (js_get (hands s3) giver) (deck s3) metadata = Inr r"
    and s1: "s1 = (case r of None \<Rightarrow> s3 | Some h' \<Rightarrow> s3\<lparr>hands := (hands s3)[nat giver := h']\<rparr>)"
    by (rule clue_cardCycle_Inr)
  note r = r[unfolded s3]
  from r cc obtain h ci where h: "js_get (hands state) giver = Some h"
    and ci: "chopIndex C (Some h) (deck state) = Inr ci"
    and r': "r = Some (if ci = int (length h) - 1 then h
                   else fst (splice1 h ci)
                        @ [case snd (splice1 h ci) of [] \<Rightarrow> None | x # xs \<Rightarrow> x])"
    by (rule cardCycle_Inr)
  have same: "(hands state)[nat giver := h] = hands state"
    using h by (auto simp: js_get_def split: if_splits)
  have "hands s1 = (if ci = int (length h) - 1 then hands state
                    else (hands state)[nat giver := moved_to_front h (nat ci)])"
    if "0 \<le> ci" "ci < int (length h)"
    using that by (simp add: s1 r' s3 same splice1_in_range moved_to_front_def)
  moreover from f have "hands state' = hands s1"
    by (simp add: switch_fields_def)
  ultimately show ?thesis using h ci by auto
qed

theorem card_cycle_moves_chop_witness:
  "gameStateReducer example_collaborators example_state (Clue Rank 3 0 [4] 1 7 False)
     True False False False example_metadata None = Inr after_clue
   \<and> optCardCycle (options example_metadata)
   \<and> js_get (hands example_state) 0 = Some [Some 0, Some 1, Some 2]
   \<and> chopIndex example_collaborators (Some [Some 0, Some 1, Some 2]) (deck example_state) = Inr 0
   \<and> hands after_clue = (hands example_state)[0 := [Some 1, Some 2, Some 0]]"
proof -
  have cc: "optCardCycle (options example_metadata)"
    by (simp add: example_metadata_def)
  have h: "js_get (hands example_state) 0 = Some [Some 0, Some 1, Some 2]"
    by (simp add: js_get_def example_state_def)
  have ci: "chopIndex example_collaborators (Some [Some 0, Some 1, Some 2]) (deck example_state)
              = Inr 0"
    by (simp add: example_collaborators_def)
  from card_cycle_moves_chop[OF eval_clue cc] h ci
  have "hands after_clue =
          (hands example_state)[nat 0 := moved_to_front [Some 0, Some 1, Some 2] (nat 0)]"
    by auto
  then have "hands after_clue = (hands example_state)[0 := [Some 1, Some 2, Some 0]]"
    by (simp add: moved_to_front_def)
  with eval_clue cc h ci show ?thesis by (intro conjI)
qed

subsection \<open>C9: the log entries of an action\<close>

text \<open>
  C9, as stated: every \<open>clue\<close>, \<open>discard\<close>, \<open>play\<close>, \<open>draw\<close>, \<open>gameOver\<close>,
  \<open>playerTimes\<close> and \<open>strike\<close> action appends one or more entries to the log. It fails
  for \<open>strike\<close>, whose branch pushes a strike record and no log entry, and for a \<open>draw\<close>
  that does not complete the initial deal: in the example game both return a state whose
  log is the prior log.
\<close>

theorem strike_and_draw_append_nothing:
  "gameStateReducer example_collaborators example_state (Strike 1 7 2)
     True False False False example_metadata None = Inr after_strike
   \<and> log after_strike = log example_state
   \<and> gameStateReducer example_collaborators example_state (Draw 0 10 (Some 1) 2)
       True False False False example_metadata None = Inr after_draw
   \<and> log after_draw = log example_state"
  by (simp add: eval_strike eval_draw after_strike_def after_draw_def)

text \<open>
  C9, amended. A returning run appends entries to the log, each with the turn number of
  the prior state plus one: exactly one for a \<open>clue\<close>, a \<open>discard\<close>, a \<open>play\<close> and a
  \<open>gameOver\<close>; one per player time and one more for \<open>playerTimes\<close>; for a \<open>draw\<close>, one
  when the initial deal is finished after the draw and none otherwise; none for \<open>strike\<close>
  and for the seven actions without narration.
\<close>

theorem log_entries_of_an_action:
  fixes C :: "('c, 'x, 'n) Collaborators"
  assumes ok: "gameStateReducer C state action playing shadowing finished hypothetical metadata
                 ourNotes = Inr state'"
  shows "\<exists>entries. log state' = log state @ entries
           \<and> (\<forall>e\<in>set entries. turn_log e = turnNum (turn state) + 1)
           \<and> (is_Clue action \<or> is_Discard action \<or> is_Play action \<or> is_GameOver action
                \<longrightarrow> length entries = 1)
           \<and> (\<forall>times duration. action = PlayerTimes times duration
                \<longrightarrow> length entries = length times + 1)
           \<and> (is_Draw action
                \<longrightarrow> (\<exists>fin. isInitialDealFinished C (cardsRemainingInTheDeck state - 1) metadata
                              = Inr fin
                          \<and> length entries = (if fin then 1 else 0)))
           \<and> (is_Strike action \<or> is_SetEffMod action \<or> is_EditNote action
                \<or> is_NoteList action \<or> is_NoteListPlayer action \<or> is_ReceiveNote action
                \<or> is_Turn action \<or> is_CardIdentity action
                \<longrightarrow> entries = [])"
proof -
  from ok obtain v s1 where
    b: "actionBranch C state action playing shadowing finished hypothetical metadata v = Inr s1"
    and f: "switch_fields state' = switch_fields s1"
    by (rule reducer_fields)
  from f have l: "log state' = log s1"
    by (simp add: switch_fields_def)
  let ?t = "turnNum (turn state) + 1"
  show ?thesis
  proof (cases action)
    case (Clue ct cv giver lst target trn ign)
    with b have "clue_branch C state action ct cv giver lst target ign hypothetical metadata v
                   = Inr s1"
      by simp
    from clue_branch_log[OF this] obtain text' where
      "log s1 = log state @ [\<lparr>turn_log = ?t, text_log = text'\<rparr>]" ..
    with l Clue show ?thesis
      by (intro exI[of _ "[\<lparr>turn_log = ?t, text_log = text'\<rparr>]"]) simp
  next
    case (Discard p ord si rk fl)
    with b have "discard_branch C state action playing shadowing finished hypothetical metadata v
                   = Inr s1"
      by simp
    from discard_branch_log[OF this] obtain text' where
      "log s1 = log state @ [\<lparr>turn_log = ?t, text_log = text'\<rparr>]" ..
    with l Discard show ?thesis
      by (intro exI[of _ "[\<lparr>turn_log = ?t, text_log = text'\<rparr>]"]) simp
  next
    case (Draw p ord si rk)
    with b have "draw_branch C state action metadata = Inr s1"
      by simp
    from draw_branch_log[OF this] obtain fin es where
      fin: "isInitialDealFinished C (cardsRemainingInTheDeck state - 1) metadata = Inr fin"
      and es: "log s1 = log state @ es" "length es = (if fin then 1 else 0)"
        "\<forall>e\<in>set es. turn_log e = ?t"
      by blast
    with l Draw show ?thesis
      by (intro exI[of _ es]) auto
  next
    case (GameOver ec p votes)
    with b have "gameOver_branch C state ec p votes metadata = Inr s1"
      by simp
    from gameOver_branch_log[OF this] obtain text' where
      "log s1 = log state @ [\<lparr>turn_log = ?t, text_log = text'\<rparr>]" ..
    with l GameOver show ?thesis
      by (intro exI[of _ "[\<lparr>turn_log = ?t, text_log = text'\<rparr>]"]) simp
  next
    case (Play p ord si rk)
    with b have "play_branch C state action playing shadowing finished hypothetical metadata v
                   = Inr s1"
      by simp
    from play_branch_log[OF this] obtain text' where
      "log s1 = log state @ [\<lparr>turn_log = ?t, text_log = text'\<rparr>]" ..
    with l Play show ?thesis
      by (intro exI[of _ "[\<lparr>turn_log = ?t, text_log = text'\<rparr>]"]) simp
  next
    case (PlayerTimes times duration)
    with b have s1: "s1 = playerTimes_branch state times duration metadata"
      by simp
    from playerTimes_branch_log[of state times duration metadata] obtain es where
      "log s1 = log state @ es" "length es = length times + 1"
      "\<forall>e\<in>set es. turn_log e = ?t"
      unfolding s1 by blast
    with l PlayerTimes show ?thesis
      by (intro exI[of _ es]) simp
  next
    case (Strike num trn ord)
    with b have "log s1 = log state" by (auto simp: strike_branch_def)
    with l Strike show ?thesis by (intro exI[of _ "[]"]) simp
  next
    case (SetEffMod x)
    with b l show ?thesis by (intro exI[of _ "[]"]) auto
  next
    case (EditNote x)
    with b l show ?thesis by (intro exI[of _ "[]"]) auto
  next
    case (NoteList x)
    with b l show ?thesis by (intro exI[of _ "[]"]) auto
  next
    case (NoteListPlayer x)
    with b l show ?thesis by (intro exI[of _ "[]"]) auto
  next
    case (ReceiveNote x)
    with b l show ?thesis by (intro exI[of _ "[]"]) auto
  next
    case (Turn x)
    with b l show ?thesis by (intro exI[of _ "[]"]) auto
  next
    case (CardIdentity x)
    with b l show ?thesis by (intro exI[of _ "[]"]) auto
  qed
qed

theorem log_entries_of_an_action_witness:
  "gameStateReducer example_collaborators example_state (Play 0 2 (Some 0) 5)
     True False False False example_metadata None = Inr after_play
   \<and> log after_play = log example_state
        @ [\<lparr>turn_log = 8, text_log = ''Alice plays a named card from slot #1 (blind)''\<rparr>]
   \<and> turnNum (turn example_state) + 1 = 8"
proof -
  from log_entries_of_an_action[OF eval_play] obtain entries where
    e: "log after_play = log example_state @ entries"
    and t: "\<forall>e\<in>set entries. turn_log e = turnNum (turn example_state) + 1"
    by blast
  have "log example_state = []"
    by (simp add: example_state_def)
  with e have "entries = [\<lparr>turn_log = 8,
                 text_log = ''Alice plays a named card from slot #1 (blind)''\<rparr>]"
    by (simp add: after_play_def)
  with e t have "log after_play = log example_state
        @ [\<lparr>turn_log = 8, text_log = ''Alice plays a named card from slot #1 (blind)''\<rparr>]"
    and "turnNum (turn example_state) + 1 = 8"
    by simp_all
  with eval_play show ?thesis by (intro conjI)
qed

subsection \<open>C10: redirection to the hole\<close>




end
